theory Spec2Isabelle
  imports Main "HOL-Library.Multiset"
begin

section \<open>Values, exceptions and the syntax tree\<close>

text \<open>
  The extractor of \<^verbatim>\<open>docshadow/generator.py\<close> walks the tree that Python's
  \<^verbatim>\<open>ast.parse\<close> returns and builds dictionaries that \<^verbatim>\<open>json.dump\<close> writes.
  The dictionaries are modelled as JSON values whose objects are association lists in
  insertion order, the exceptions of Python as values of type \<open>exn\<close>, and a call that can
  raise as a function into \<open>exn + 'a\<close> (\<open>Inl\<close> is the exception).
\<close>

datatype json =
    JNull
  | JBool bool
  | JInt int
  | JStr string
  | JList "json list"
  | JDict "(string \<times> json) list"

datatype exn =
    AttributeError string
  | IndexError string
  | TypeError string
  | ValueError string
  | RecursionError string
  | SyntaxError string
  | UnicodeDecodeError string
  | OSError string
  | BadName string
  | InvalidGitRepositoryError string

text \<open>\<^verbatim>\<open>str(e)\<close>: the message an exception carries.\<close>

fun str_exn :: "exn \<Rightarrow> string" where
  "str_exn (AttributeError m) = m"
| "str_exn (IndexError m) = m"
| "str_exn (TypeError m) = m"
| "str_exn (ValueError m) = m"
| "str_exn (RecursionError m) = m"
| "str_exn (SyntaxError m) = m"
| "str_exn (UnicodeDecodeError m) = m"
| "str_exn (OSError m) = m"
| "str_exn (BadName m) = m"
| "str_exn (InvalidGitRepositoryError m) = m"

text \<open>Sequencing of two steps, the second one skipped when the first raises.\<close>

definition bind_exn :: "exn + 'a \<Rightarrow> ('a \<Rightarrow> exn + 'b) \<Rightarrow> exn + 'b" where
  "bind_exn m f = (case m of Inl e \<Rightarrow> Inl e | Inr x \<Rightarrow> f x)"

text \<open>
  A list comprehension, or a loop that appends one result per element: the elements are
  taken in order and the first call that raises ends it.
\<close>

fun map_exn :: "('a \<Rightarrow> exn + 'b) \<Rightarrow> 'a list \<Rightarrow> exn + 'b list" where
  "map_exn f [] = Inr []"
| "map_exn f (x # xs) =
     bind_exn (f x) (\<lambda>y. bind_exn (map_exn f xs) (\<lambda>ys. Inr (y # ys)))"

text \<open>
  Python's \<^verbatim>\<open>xs[i]\<close> on a list with an integer index: an index from the front, an
  index from the back, or \<^verbatim>\<open>IndexError\<close>.
\<close>

definition py_index :: "'a list \<Rightarrow> int \<Rightarrow> exn + 'a" where
  "py_index xs i =
     (if 0 \<le> i \<and> i < int (length xs) then Inr (xs ! nat i)
      else if i < 0 \<and> - int (length xs) \<le> i then Inr (xs ! nat (int (length xs) + i))
      else Inl (IndexError ''list index out of range''))"

text \<open>
  The value of an \<^verbatim>\<open>ast.Constant\<close>. Floats and complex numbers are carried as the
  text of their literal: the extractor only passes them to \<^verbatim>\<open>repr\<close> and
  \<^verbatim>\<open>str\<close>.
\<close>

datatype pyconst =
    CNone
  | CBool bool
  | CInt int
  | CStr string
  | CBytes string
  | CNumber string
  | CEllipsis

text \<open>
  Expressions. The extractor distinguishes \<^verbatim>\<open>Name\<close>, \<^verbatim>\<open>Attribute\<close>,
  \<^verbatim>\<open>Constant\<close>, \<^verbatim>\<open>List\<close> and \<^verbatim>\<open>Dict\<close>; \<^verbatim>\<open>Tuple\<close> is the target of an
  unpacking assignment; every other shape is \<open>OtherExpr\<close>, which the code only hands to
  \<^verbatim>\<open>ast.dump\<close>.
\<close>

datatype expr =
    Name string
  | Attribute expr string
  | Constant pyconst
  | ListExpr "expr list"
  | DictExpr "expr list" "expr list"
  | TupleExpr "expr list"
  | OtherExpr string

text \<open>\<^verbatim>\<open>ast.arg(arg, annotation)\<close> and \<^verbatim>\<open>ast.alias(name, asname)\<close>.\<close>

datatype arg = Arg (arg_name: string) (annotation: "expr option")

datatype ast_alias = Alias string "string option"

text \<open>\<^verbatim>\<open>ast.arguments\<close>, with all seven fields of the Python grammar.\<close>

record arguments =
  posonlyargs :: "arg list"
  args :: "arg list"
  vararg :: "arg option"
  kwonlyargs :: "arg list"
  kw_defaults :: "expr option list"
  kwarg :: "arg option"
  defaults :: "expr list"

text \<open>
  The nodes of the tree that carry statements: every statement of the Python grammar
  that has a block (function, async function and class definitions, \<^verbatim>\<open>for\<close>,
  \<^verbatim>\<open>async for\<close>, \<^verbatim>\<open>while\<close>, \<^verbatim>\<open>if\<close>, \<^verbatim>\<open>with\<close>, \<^verbatim>\<open>async with\<close>,
  \<^verbatim>\<open>match\<close>, \<^verbatim>\<open>try\<close> and \<^verbatim>\<open>try\<close> with \<^verbatim>\<open>except*\<close>), the two nodes that are
  no statements but hold a block (\<open>ExceptHandler\<close> below a \<^verbatim>\<open>try\<close>, \<open>match_case\<close>
  below a \<^verbatim>\<open>match\<close>), the statements without a block that the extractor looks at
  (assignments, imports, expression statements), and \<open>OtherStmt\<close> for every other
  statement without a block. The fields are in the order of the grammar
  (\<^verbatim>\<open>FunctionDef(name, args, body, decorator_list, returns)\<close>,
  \<^verbatim>\<open>ClassDef(name, bases, body, decorator_list)\<close>, \<^verbatim>\<open>Assign(targets, value)\<close>,
  \<^verbatim>\<open>ImportFrom(module, names)\<close>, \<^verbatim>\<open>Try(body, handlers, orelse, finalbody)\<close>,
  \<^verbatim>\<open>Match(subject, cases)\<close>), followed by \<^verbatim>\<open>lineno\<close> where the extractor reads it;
  fields that hold neither statements nor anything the extractor reads (keywords of a
  class, items of a \<^verbatim>\<open>with\<close>, the pattern of a case) are left out or kept as
  expressions. \<open>IfStmt\<close> is \<^verbatim>\<open>ast.If\<close>.
\<close>

datatype stmt =
    FunctionDef string arguments "stmt list" "expr list" "expr option" int
  | AsyncFunctionDef string arguments "stmt list" "expr list" "expr option" int
  | ClassDef string "expr list" "stmt list" "expr list" int
  | Assign "expr list" expr int
  | AnnAssign expr expr "expr option" int
  | Import "ast_alias list"
  | ImportFrom "string option" "ast_alias list"
  | Expr expr
  | IfStmt expr "stmt list" "stmt list"
  | While expr "stmt list" "stmt list"
  | For expr expr "stmt list" "stmt list"
  | AsyncFor expr expr "stmt list" "stmt list"
  | With "expr list" "stmt list"
  | AsyncWith "expr list" "stmt list"
  | Match expr "stmt list"
  | match_case "expr option" "stmt list"
  | Try "stmt list" "stmt list" "stmt list" "stmt list"
  | TryStar "stmt list" "stmt list" "stmt list" "stmt list"
  | ExceptHandler "expr option" "stmt list"
  | OtherStmt string

text \<open>A compiled \<^verbatim>\<open>pathspec.PathSpec\<close>: the pattern lines it was made from.\<close>

datatype pathspec = PathSpec "string list"

text \<open>
  The functions of the Python library that the code calls and that are not code of
  the repository are parameters of the model. Those that can raise on a tree that was
  parsed return an exception or a value: \<^verbatim>\<open>repr\<close> and \<^verbatim>\<open>str\<close> of a constant's value
  (an integer of more digits than the conversion limit raises \<^verbatim>\<open>ValueError\<close>) and
  \<^verbatim>\<open>ast.dump\<close> (\<^verbatim>\<open>RecursionError\<close> on a deep expression). \<^verbatim>\<open>str.isupper\<close> is a
  parameter too: it follows the Unicode character database. \<open>recursion_limit\<close> is the
  number of nested calls of \<^verbatim>\<open>_get_name\<close> that the interpreter allows before it
  raises \<^verbatim>\<open>RecursionError\<close>. The others are \<^verbatim>\<open>inspect.cleandoc\<close> (applied by
  \<^verbatim>\<open>ast.get_docstring\<close>), \<^verbatim>\<open>ast.parse\<close>, which takes the source text and the file
  name, \<^verbatim>\<open>Path(p).parts\<close> and \<^verbatim>\<open>Path(p).parent\<close>, \<^verbatim>\<open>str.splitlines\<close>,
  \<^verbatim>\<open>PathSpec.from_lines('gitwildmatch', lines)\<close>, \<^verbatim>\<open>PathSpec.match_file\<close>,
  \<^verbatim>\<open>str.strip\<close> and the decimal text of a number in a formatted string.
\<close>

record pylib =
  py_repr :: "pyconst \<Rightarrow> exn + string"
  py_str :: "pyconst \<Rightarrow> exn + string"
  ast_dump :: "expr \<Rightarrow> exn + string"
  str_isupper :: "string \<Rightarrow> bool"
  recursion_limit :: nat
  cleandoc :: "string \<Rightarrow> string"
  ast_parse :: "string \<Rightarrow> string \<Rightarrow> exn + stmt list"
  path_parts :: "string \<Rightarrow> string list"
  path_parent :: "string \<Rightarrow> string"
  splitlines :: "string \<Rightarrow> string list"
  from_lines :: "string list \<Rightarrow> exn + pathspec"
  match_file :: "pathspec \<Rightarrow> string \<Rightarrow> bool"
  py_strip :: "string \<Rightarrow> string"
  str_of_nat :: "nat \<Rightarrow> string"

text \<open>An optional string as a JSON value: \<^verbatim>\<open>None\<close> is written \<^verbatim>\<open>null\<close>.\<close>

fun json_opt :: "string option \<Rightarrow> json" where
  "json_opt None = JNull"
| "json_opt (Some s) = JStr s"

text \<open>The keys of a dictionary, and the value under a key (\<^verbatim>\<open>d.get(k)\<close>).\<close>

fun json_keys :: "json \<Rightarrow> string list" where
  "json_keys (JDict kvs) = map fst kvs"
| "json_keys j = []"

fun json_get :: "string \<Rightarrow> json \<Rightarrow> json option" where
  "json_get k (JDict kvs) = map_of kvs k"
| "json_get k j = None"

section \<open>Names, annotations and values\<close>

text \<open>
  \<^verbatim>\<open>_get_name\<close> calls itself on the value of an attribute access. \<open>depth\<close> counts the
  calls of \<^verbatim>\<open>_get_name\<close> that are open; a call beyond the limit raises. The frames of
  the callers are not counted one by one: the limit stands for what is left of the
  interpreter's limit where the first call is made.
\<close>

fun get_name_at :: "pylib \<Rightarrow> nat \<Rightarrow> expr \<Rightarrow> exn + string" where
  "get_name_at L depth (Name ident) =
     (if recursion_limit L \<le> depth
      then Inl (RecursionError ''maximum recursion depth exceeded'')
      else Inr ident)"
| "get_name_at L depth (Attribute v attr) =
     (if recursion_limit L \<le> depth
      then Inl (RecursionError ''maximum recursion depth exceeded'')
      else bind_exn (get_name_at L (Suc depth) v) (\<lambda>s. Inr (s @ ''.'' @ attr)))"
| "get_name_at L depth (Constant c) =
     (if recursion_limit L \<le> depth
      then Inl (RecursionError ''maximum recursion depth exceeded'')
      else py_str L c)"
| "get_name_at L depth e =
     (if recursion_limit L \<le> depth
      then Inl (RecursionError ''maximum recursion depth exceeded'')
      else ast_dump L e)"

definition get_name :: "pylib \<Rightarrow> expr \<Rightarrow> exn + string" where
  "get_name L node = get_name_at L 0 node"

definition get_annotation :: "pylib \<Rightarrow> expr option \<Rightarrow> exn + string option" where
  "get_annotation L ann =
     (case ann of
        None \<Rightarrow> Inr None
      | Some e \<Rightarrow> bind_exn (get_name L e) (\<lambda>s. Inr (Some s)))"

fun get_value_repr :: "pylib \<Rightarrow> expr \<Rightarrow> exn + string" where
  "get_value_repr L (Constant c) = py_repr L c"
| "get_value_repr L (Name ident) = Inr ident"
| "get_value_repr L (ListExpr es) = Inr ''[...]''"
| "get_value_repr L (DictExpr ks vs) = Inr ''{...}''"
| "get_value_repr L e = ast_dump L e"

definition get_default_value :: "pylib \<Rightarrow> expr \<Rightarrow> exn + string" where
  "get_default_value L node = get_value_repr L node"

section \<open>Arguments\<close>

text \<open>
  The body of the loop \<^verbatim>\<open>for i, arg in enumerate(args.args)\<close> of
  \<^verbatim>\<open>_extract_arguments\<close>: the dictionary is built first (the annotation is resolved
  there), the default is filled in afterwards. The offset
  \<^verbatim>\<open>len(args.args) - len(args.defaults)\<close> is a Python integer and can be negative (the
  defaults of positional-only parameters are in the same list), so it is an \<open>int\<close> here.
\<close>

definition regular_arg_info :: "pylib \<Rightarrow> arguments \<Rightarrow> int \<Rightarrow> arg \<Rightarrow> exn + json" where
  "regular_arg_info L a i x =
     (case x of Arg ident ann \<Rightarrow>
        bind_exn (get_annotation L ann) (\<lambda>typ.
          (let offset = int (length (args a)) - int (length (defaults a));
               has_default = (i \<ge> offset);
               default_idx = i - offset
           in if has_default \<and> default_idx \<ge> 0
              then bind_exn (py_index (defaults a) default_idx) (\<lambda>d.
                   bind_exn (get_default_value L d) (\<lambda>dv.
                     Inr (JDict [(''name'', JStr ident),
                                 (''type'', json_opt typ),
                                 (''has_default'', JBool has_default),
                                 (''default'', JStr dv)])))
              else Inr (JDict [(''name'', JStr ident),
                               (''type'', json_opt typ),
                               (''has_default'', JBool has_default),
                               (''default'', JNull)]))))"

fun regular_args_loop :: "pylib \<Rightarrow> arguments \<Rightarrow> int \<Rightarrow> arg list \<Rightarrow> exn + json list" where
  "regular_args_loop L a i [] = Inr []"
| "regular_args_loop L a i (x # xs) =
     bind_exn (regular_arg_info L a i x) (\<lambda>info.
     bind_exn (regular_args_loop L a (i + 1) xs) (\<lambda>rest. Inr (info # rest)))"

definition vararg_info :: "pylib \<Rightarrow> arg option \<Rightarrow> exn + json list" where
  "vararg_info L v =
     (case v of None \<Rightarrow> Inr []
      | Some (Arg ident ann) \<Rightarrow>
          bind_exn (get_annotation L ann) (\<lambda>typ.
            Inr [JDict [(''name'', JStr (''*'' @ ident)),
                        (''type'', json_opt typ),
                        (''is_vararg'', JBool True)]]))"

definition kwarg_info :: "pylib \<Rightarrow> arg option \<Rightarrow> exn + json list" where
  "kwarg_info L k =
     (case k of None \<Rightarrow> Inr []
      | Some (Arg ident ann) \<Rightarrow>
          bind_exn (get_annotation L ann) (\<lambda>typ.
            Inr [JDict [(''name'', JStr (''**'' @ ident)),
                        (''type'', json_opt typ),
                        (''is_kwarg'', JBool True)]]))"

definition extract_arguments :: "pylib \<Rightarrow> arguments \<Rightarrow> exn + json list" where
  "extract_arguments L a =
     bind_exn (regular_args_loop L a 0 (args a)) (\<lambda>regular.
     bind_exn (vararg_info L (vararg a)) (\<lambda>star.
     bind_exn (kwarg_info L (kwarg a)) (\<lambda>starstar.
       Inr (regular @ star @ starstar))))"

section \<open>Functions, methods and properties\<close>

text \<open>The \<^verbatim>\<open>isinstance\<close> tests of the extractor.\<close>

fun is_FunctionDef :: "stmt \<Rightarrow> bool" where
  "is_FunctionDef (FunctionDef nm a body decs ret ln) = True"
| "is_FunctionDef node = False"

fun is_AsyncFunctionDef :: "stmt \<Rightarrow> bool" where
  "is_AsyncFunctionDef (AsyncFunctionDef nm a body decs ret ln) = True"
| "is_AsyncFunctionDef node = False"

fun is_ClassDef :: "stmt \<Rightarrow> bool" where
  "is_ClassDef (ClassDef nm bases body decs ln) = True"
| "is_ClassDef node = False"

text \<open>
  \<^verbatim>\<open>ast.get_docstring\<close> on the body of a module, class or function: the first
  statement, when it is an expression statement of a string constant, cleaned.
\<close>

fun get_docstring :: "pylib \<Rightarrow> stmt list \<Rightarrow> string option" where
  "get_docstring L (Expr (Constant (CStr text)) # rest) = Some (cleandoc L text)"
| "get_docstring L body = None"

definition get_return_annotation :: "pylib \<Rightarrow> expr option \<Rightarrow> exn + string option" where
  "get_return_annotation L ret =
     (case ret of
        Some r \<Rightarrow> bind_exn (get_name L r) (\<lambda>s. Inr (Some s))
      | None \<Rightarrow> Inr None)"

text \<open>\<^verbatim>\<open>name.startswith("_")\<close>.\<close>

fun startswith_underscore :: "string \<Rightarrow> bool" where
  "startswith_underscore (c # cs) = (c = CHR ''_'')"
| "startswith_underscore [] = False"

text \<open>
  The dictionary that \<^verbatim>\<open>_extract_function_info\<close> builds from the fields of its node:
  the arguments first, then the entries in the order of the dictionary display. The node
  itself is passed along for the test \<^verbatim>\<open>isinstance(node, ast.AsyncFunctionDef)\<close>.
  The tests for \<^verbatim>\<open>classmethod\<close> and \<^verbatim>\<open>staticmethod\<close> resolve the names of the
  decorators once more; they are the names already in \<open>decorators\<close>.
\<close>

definition function_info ::
  "pylib \<Rightarrow> stmt \<Rightarrow> string \<Rightarrow> arguments \<Rightarrow> stmt list \<Rightarrow> expr list \<Rightarrow> expr option \<Rightarrow> int \<Rightarrow> bool
     \<Rightarrow> exn + json" where
  "function_info L node nm a body decs ret ln is_method =
     bind_exn (extract_arguments L a) (\<lambda>args_info.
     bind_exn (map_exn (get_name L) decs) (\<lambda>decorators.
     bind_exn (get_return_annotation L ret) (\<lambda>returns.
       Inr (JDict
         ([(''name'', JStr nm),
           (''docstring'', json_opt (get_docstring L body)),
           (''line_number'', JInt ln),
           (''arguments'', JList args_info),
           (''decorators'', JList (map JStr decorators)),
           (''is_async'', JBool (is_AsyncFunctionDef node)),
           (''is_method'', JBool is_method),
           (''returns'', json_opt returns)]
          @ (if is_method
             then [(''is_classmethod'', JBool (list_ex (\<lambda>d. d = ''classmethod'') decorators)),
                   (''is_staticmethod'', JBool (list_ex (\<lambda>d. d = ''staticmethod'') decorators)),
                   (''is_private'', JBool (startswith_underscore nm))]
             else []))))))"

text \<open>
  \<^verbatim>\<open>_extract_function_info\<close> reads \<^verbatim>\<open>node.args\<close>, \<^verbatim>\<open>node.name\<close> and the other
  fields of a function definition: on a node of another kind the attribute access raises.
\<close>

fun extract_function_info :: "pylib \<Rightarrow> stmt \<Rightarrow> bool \<Rightarrow> exn + json" where
  "extract_function_info L (FunctionDef nm a body decs ret ln) is_method =
     function_info L (FunctionDef nm a body decs ret ln) nm a body decs ret ln is_method"
| "extract_function_info L (AsyncFunctionDef nm a body decs ret ln) is_method =
     function_info L (AsyncFunctionDef nm a body decs ret ln) nm a body decs ret ln is_method"
| "extract_function_info L node is_method = Inl (AttributeError ''args'')"

text \<open>\<^verbatim>\<open>_extract_functions\<close>: the loop over \<^verbatim>\<open>tree.body\<close>.\<close>

fun extract_functions :: "pylib \<Rightarrow> stmt list \<Rightarrow> exn + json list" where
  "extract_functions L [] = Inr []"
| "extract_functions L (node # rest) =
     (if is_FunctionDef node
      then bind_exn (extract_function_info L node False) (\<lambda>func_info.
           bind_exn (extract_functions L rest) (\<lambda>functions. Inr (func_info # functions)))
      else extract_functions L rest)"

text \<open>\<^verbatim>\<open>_extract_methods\<close>: the loop over \<^verbatim>\<open>class_node.body\<close>.\<close>

fun extract_methods :: "pylib \<Rightarrow> stmt list \<Rightarrow> exn + json list" where
  "extract_methods L [] = Inr []"
| "extract_methods L (node # rest) =
     (if is_FunctionDef node
      then bind_exn (extract_function_info L node True) (\<lambda>method_info.
           bind_exn (extract_methods L rest) (\<lambda>methods. Inr (method_info # methods)))
      else extract_methods L rest)"

text \<open>
  \<^verbatim>\<open>_extract_properties\<close>: for each function definition of the class body, the inner loop
  over its decorators appends one entry at the first decorator that is the name
  \<^verbatim>\<open>property\<close> or an attribute access \<^verbatim>\<open>.property\<close>, and breaks.
\<close>

fun is_property_decorator :: "expr \<Rightarrow> bool" where
  "is_property_decorator (Name ident) = (ident = ''property'')"
| "is_property_decorator (Attribute v attr) = (attr = ''property'')"
| "is_property_decorator decorator = False"

fun decorator_loop :: "json \<Rightarrow> expr list \<Rightarrow> json list" where
  "decorator_loop prop_info [] = []"
| "decorator_loop prop_info (decorator # rest) =
     (if is_property_decorator decorator then [prop_info]
      else decorator_loop prop_info rest)"

definition property_info :: "pylib \<Rightarrow> string \<Rightarrow> stmt list \<Rightarrow> int \<Rightarrow> json" where
  "property_info L nm body ln =
     JDict [(''name'', JStr nm),
            (''docstring'', json_opt (get_docstring L body)),
            (''line_number'', JInt ln),
            (''type'', JStr ''property'')]"

fun extract_properties :: "pylib \<Rightarrow> stmt list \<Rightarrow> json list" where
  "extract_properties L [] = []"
| "extract_properties L (FunctionDef nm a body decs ret ln # rest) =
     decorator_loop (property_info L nm body ln) decs @ extract_properties L rest"
| "extract_properties L (node # rest) = extract_properties L rest"

section \<open>Walking the tree\<close>

text \<open>
  \<^verbatim>\<open>ast.iter_child_nodes\<close>, restricted to the children that hold statements, in the
  order of the node's fields. The other children of a node are expressions, arguments,
  aliases and patterns: no statement is below them, so leaving them out of the walk does
  not change the order in which the statements are visited.
\<close>

fun children :: "stmt \<Rightarrow> stmt list" where
  "children (FunctionDef nm a body decs ret ln) = body"
| "children (AsyncFunctionDef nm a body decs ret ln) = body"
| "children (ClassDef nm bases body decs ln) = body"
| "children (IfStmt test body orelse) = body @ orelse"
| "children (While test body orelse) = body @ orelse"
| "children (For target iter body orelse) = body @ orelse"
| "children (AsyncFor target iter body orelse) = body @ orelse"
| "children (With items body) = body"
| "children (AsyncWith items body) = body"
| "children (Match subject cases) = cases"
| "children (match_case guard body) = body"
| "children (Try body handlers orelse finalbody) = body @ handlers @ orelse @ finalbody"
| "children (TryStar body handlers orelse finalbody) = body @ handlers @ orelse @ finalbody"
| "children (ExceptHandler typ body) = body"
| "children node = []"

lemma sum_list_Suc_size: "sum_list (map (\<lambda>c. Suc (size c)) xs) = size_list size xs"
  by (induction xs) auto

lemma children_size: "sum_list (map (\<lambda>c. Suc (size c)) (children n)) \<le> size n"
  by (cases n) (simp_all add: sum_list_Suc_size)

text \<open>
  \<^verbatim>\<open>ast.walk\<close> keeps a queue: it takes the node at the front, appends the node's
  children at the back and yields the node (breadth first). The queue starts with the
  module, whose children are the statements of its body; the module itself is no
  statement, so the walk of a module is \<open>walk_queue\<close> of its body.
\<close>

function walk_queue :: "stmt list \<Rightarrow> stmt list" where
  "walk_queue [] = []"
| "walk_queue (n # todo) = n # walk_queue (todo @ children n)"
  by pat_completeness auto
termination
proof (relation "measure (\<lambda>q. sum_list (map (\<lambda>c. Suc (size c)) q))")
  show "wf (measure (\<lambda>q. sum_list (map (\<lambda>c. Suc (size c)) q)))" by simp
next
  fix n todo
  show "(todo @ children n, n # todo) \<in> measure (\<lambda>q. sum_list (map (\<lambda>c. Suc (size c)) q))"
    using children_size [of n] by simp
qed


section \<open>Classes, imports and constants\<close>

text \<open>The dictionary that the loop of \<^verbatim>\<open>_extract_classes\<close> builds for a class node.\<close>

fun class_info :: "pylib \<Rightarrow> stmt \<Rightarrow> exn + json" where
  "class_info L (ClassDef nm bases body decs ln) =
     bind_exn (map_exn (get_name L) bases) (\<lambda>base_names.
     bind_exn (map_exn (get_name L) decs) (\<lambda>decorators.
     bind_exn (extract_methods L body) (\<lambda>methods.
       Inr (JDict [(''name'', JStr nm),
                   (''docstring'', json_opt (get_docstring L body)),
                   (''line_number'', JInt ln),
                   (''bases'', JList (map JStr base_names)),
                   (''decorators'', JList (map JStr decorators)),
                   (''methods'', JList methods),
                   (''properties'', JList (extract_properties L body))]))))"
| "class_info L node = Inl (AttributeError ''name'')"

fun extract_classes_loop :: "pylib \<Rightarrow> stmt list \<Rightarrow> exn + json list" where
  "extract_classes_loop L [] = Inr []"
| "extract_classes_loop L (node # rest) =
     (if is_ClassDef node
      then bind_exn (class_info L node) (\<lambda>info.
           bind_exn (extract_classes_loop L rest) (\<lambda>classes. Inr (info # classes)))
      else extract_classes_loop L rest)"

definition extract_classes :: "pylib \<Rightarrow> stmt list \<Rightarrow> exn + json list" where
  "extract_classes L tree = extract_classes_loop L (walk_queue tree)"

fun import_entries :: "stmt \<Rightarrow> json list" where
  "import_entries (Import names) =
     map (\<lambda>al. case al of Alias nm asname \<Rightarrow>
            JDict [(''type'', JStr ''import''),
                   (''module'', JStr nm),
                   (''alias'', json_opt asname)]) names"
| "import_entries (ImportFrom module names) =
     map (\<lambda>al. case al of Alias nm asname \<Rightarrow>
            JDict [(''type'', JStr ''from_import''),
                   (''module'', JStr (case module of Some m \<Rightarrow> m | None \<Rightarrow> [])),
                   (''name'', JStr nm),
                   (''alias'', json_opt asname)]) names"
| "import_entries node = []"

definition extract_imports :: "stmt list \<Rightarrow> json list" where
  "extract_imports tree = concat (map import_entries (walk_queue tree))"

text \<open>
  \<^verbatim>\<open>_extract_constants\<close>: the loop over the targets of one assignment. The value is
  represented once for each target that passes the two tests, and not at all when none
  does.
\<close>

definition constant_info :: "string \<Rightarrow> int \<Rightarrow> string \<Rightarrow> json" where
  "constant_info ident ln value_repr =
     JDict [(''name'', JStr ident),
            (''line_number'', JInt ln),
            (''value'', JStr value_repr)]"

fun targets_loop :: "pylib \<Rightarrow> expr list \<Rightarrow> expr \<Rightarrow> int \<Rightarrow> exn + json list" where
  "targets_loop L [] val ln = Inr []"
| "targets_loop L (Name ident # rest) val ln =
     (if str_isupper L ident
      then bind_exn (get_value_repr L val) (\<lambda>v.
           bind_exn (targets_loop L rest val ln) (\<lambda>more. Inr (constant_info ident ln v # more)))
      else targets_loop L rest val ln)"
| "targets_loop L (target # rest) val ln = targets_loop L rest val ln"

fun extract_constants :: "pylib \<Rightarrow> stmt list \<Rightarrow> exn + json list" where
  "extract_constants L [] = Inr []"
| "extract_constants L (Assign targets val ln # rest) =
     bind_exn (targets_loop L targets val ln) (\<lambda>found.
     bind_exn (extract_constants L rest) (\<lambda>more. Inr (found @ more)))"
| "extract_constants L (node # rest) = extract_constants L rest"

section \<open>One file\<close>

text \<open>
  \<^verbatim>\<open>extract_from_file\<close>. Reading the file is the parameter \<open>open_read\<close> (the text of
  the file, or the exception of \<^verbatim>\<open>open\<close> or of the decoder), the clock is the
  parameter \<open>now\<close> (\<^verbatim>\<open>datetime.now().isoformat()\<close>). The result is the dictionary
  and the lines written with \<^verbatim>\<open>click.echo\<close> (without the emoji that starts them).
  The \<^verbatim>\<open>try\<close> block is \<open>doc_data\<close>, with the entries of the dictionary evaluated in
  their order; \<^verbatim>\<open>except Exception\<close> is the \<open>Inl\<close> branch. Echoing a line is taken to
  succeed.
\<close>

definition doc_data :: "pylib \<Rightarrow> (string \<Rightarrow> exn + string) \<Rightarrow> string \<Rightarrow> string \<Rightarrow> exn + json" where
  "doc_data L open_read now file_path =
     bind_exn (open_read file_path) (\<lambda>source_code.
     bind_exn (ast_parse L source_code file_path) (\<lambda>tree.
     bind_exn (extract_classes L tree) (\<lambda>classes.
     bind_exn (extract_functions L tree) (\<lambda>functions.
     bind_exn (extract_constants L tree) (\<lambda>constants.
       Inr (JDict [(''path'', JStr file_path),
                   (''module_docstring'', json_opt (get_docstring L tree)),
                   (''imports'', JList (extract_imports tree)),
                   (''classes'', JList classes),
                   (''functions'', JList functions),
                   (''constants'', JList constants),
                   (''generated_at'', JStr now)]))))))"

definition extract_from_file ::
  "pylib \<Rightarrow> (string \<Rightarrow> exn + string) \<Rightarrow> string \<Rightarrow> string \<Rightarrow> json \<times> string list" where
  "extract_from_file L open_read now file_path =
     (case doc_data L open_read now file_path of
        Inr d \<Rightarrow> (d, [])
      | Inl e \<Rightarrow>
          (JDict [(''path'', JStr file_path),
                  (''error'', JStr (str_exn e)),
                  (''generated_at'', JStr now)],
           [''Warning: Could not parse '' @ file_path @ '': '' @ str_exn e]))"

section \<open>The project structure\<close>

text \<open>\<^verbatim>\<open>d[k] = v\<close> on a dictionary: a key that is there keeps its place.\<close>

fun dict_set :: "string \<Rightarrow> json \<Rightarrow> (string \<times> json) list \<Rightarrow> (string \<times> json) list" where
  "dict_set k v [] = [(k, v)]"
| "dict_set k v ((k', v') # kvs) =
     (if k' = k then (k, v) # kvs else (k', v') # dict_set k v kvs)"

text \<open>
  One turn of the outer loop of \<^verbatim>\<open>_build_project_structure\<close>: the inner loop goes
  down the nested dictionaries along all parts but the last (creating the missing ones)
  and the file name is stored in the last one. The code updates the dictionaries in
  place; here the updated dictionary is returned. \<^verbatim>\<open>parts[-1]\<close> raises on a path with
  no part, and a part that is already the name of a file makes \<^verbatim>\<open>current\<close> a string:
  indexing or assigning into it raises \<^verbatim>\<open>TypeError\<close>.
\<close>

fun insert_path :: "string list \<Rightarrow> string \<Rightarrow> json \<Rightarrow> exn + json" where
  "insert_path [] leaf current = Inl (IndexError ''tuple index out of range'')"
| "insert_path [filename] leaf (JDict kvs) = Inr (JDict (dict_set filename (JStr leaf) kvs))"
| "insert_path (part # rest) leaf (JDict kvs) =
     bind_exn (insert_path rest leaf (case map_of kvs part of None \<Rightarrow> JDict [] | Some c \<Rightarrow> c))
       (\<lambda>child. Inr (JDict (dict_set part child kvs)))"
| "insert_path parts leaf current = Inl (TypeError ''str'')"

fun build_loop :: "pylib \<Rightarrow> string list \<Rightarrow> json \<Rightarrow> exn + json" where
  "build_loop L [] structure = Inr structure"
| "build_loop L (py_file # rest) structure =
     bind_exn (insert_path (path_parts L py_file) (py_file @ ''.json'') structure)
       (build_loop L rest)"

definition build_project_structure :: "pylib \<Rightarrow> string list \<Rightarrow> exn + json" where
  "build_project_structure L python_files = build_loop L python_files (JDict [])"

section \<open>The ignore file\<close>

text \<open>
  \<^verbatim>\<open>load_docignore\<close>, with \<^verbatim>\<open>Path(p).exists()\<close> and the reading of the file as
  parameters; the result is the matcher (\<open>None\<close> is Python's \<^verbatim>\<open>None\<close>) and the lines
  written with \<^verbatim>\<open>click.echo\<close>.
\<close>

definition load_docignore ::
  "pylib \<Rightarrow> (string \<Rightarrow> bool) \<Rightarrow> (string \<Rightarrow> exn + string) \<Rightarrow> string
     \<Rightarrow> pathspec option \<times> string list" where
  "load_docignore L path_exists open_read docignore_path =
     (if \<not> path_exists docignore_path then (None, [])
      else (case bind_exn (open_read docignore_path) (\<lambda>text. from_lines L (splitlines L text)) of
              Inr spec \<Rightarrow> (Some spec, [])
            | Inl e \<Rightarrow>
                (None, [''Warning: Could not load '' @ docignore_path @ '': '' @ str_exn e])))"

definition should_ignore_file :: "pylib \<Rightarrow> string \<Rightarrow> pathspec option \<Rightarrow> bool" where
  "should_ignore_file L file_path docignore_spec =
     (case docignore_spec of None \<Rightarrow> False | Some spec \<Rightarrow> match_file L spec file_path)"

section \<open>Discovering the files\<close>

text \<open>
  A directory as \<^verbatim>\<open>os.walk\<close> lists it: the names of its files, and its
  subdirectories by name.
\<close>

datatype dir = Dir "string list" "(string \<times> dir) list"

definition startswith_dot :: "string \<Rightarrow> bool" where
  "startswith_dot s = (case s of c # cs \<Rightarrow> c = CHR ''.'' | [] \<Rightarrow> False)"

definition endswith :: "string \<Rightarrow> string \<Rightarrow> bool" where
  "endswith s suffix =
     (length suffix \<le> length s \<and> drop (length s - length suffix) s = suffix)"

text \<open>
  \<^verbatim>\<open>os.path.relpath(os.path.join(root, file))\<close> for a root below the current directory:
  the segments from the current directory down, joined with the separator.
\<close>

fun relpath :: "string list \<Rightarrow> string" where
  "relpath [] = ''.''"
| "relpath [seg] = seg"
| "relpath (seg # segs) = seg @ ''/'' @ relpath segs"

text \<open>The inner loop \<^verbatim>\<open>for file in files\<close> of \<^verbatim>\<open>get_python_files\<close>.\<close>

fun files_loop :: "pylib \<Rightarrow> pathspec option \<Rightarrow> string list \<Rightarrow> string list \<Rightarrow> string list" where
  "files_loop L docignore_spec root [] = []"
| "files_loop L docignore_spec root (file # files) =
     (if endswith file ''.py'' \<and> \<not> should_ignore_file L (relpath (root @ [file])) docignore_spec
      then relpath (root @ [file]) # files_loop L docignore_spec root files
      else files_loop L docignore_spec root files)"

text \<open>
  The outer loop over \<^verbatim>\<open>os.walk(directory)\<close>, top down: the files of a directory,
  then its subdirectories in turn, without those whose name starts with a dot.
\<close>

fun walk_dir :: "pylib \<Rightarrow> pathspec option \<Rightarrow> string list \<Rightarrow> dir \<Rightarrow> string list"
  and walk_subdirs :: "pylib \<Rightarrow> pathspec option \<Rightarrow> string list \<Rightarrow> (string \<times> dir) list \<Rightarrow> string list" where
  "walk_dir L docignore_spec root (Dir files dirs) =
     files_loop L docignore_spec root files @ walk_subdirs L docignore_spec root dirs"
| "walk_subdirs L docignore_spec root [] = []"
| "walk_subdirs L docignore_spec root ((d, sub) # dirs) =
     (if startswith_dot d then [] else walk_dir L docignore_spec (root @ [d]) sub)
     @ walk_subdirs L docignore_spec root dirs"

definition get_python_files :: "pylib \<Rightarrow> dir \<Rightarrow> pathspec option \<Rightarrow> string list" where
  "get_python_files L directory docignore_spec = walk_dir L docignore_spec [] directory"

section \<open>The commit and the generation\<close>

text \<open>
  What \<^verbatim>\<open>GitPython\<close> gives: a commit with the fields that \<^verbatim>\<open>get_commit_info\<close>
  reads, and a repository that resolves a name to a commit (or raises) and has a head
  commit (or raises, in a repository with no commit).
\<close>

record commit =
  hexsha :: string
  message :: string
  author :: string
  committed_datetime :: string
  stats_files :: "exn + string list"

record repo =
  commit_of :: "string \<Rightarrow> exn + commit"
  head_commit :: "exn + commit"

record commit_info =
  ci_hash :: string
  ci_short_hash :: string
  ci_message :: string
  ci_author :: string
  ci_date :: string
  ci_files_changed :: "string list"

text \<open>
  What a run can see of its surroundings: the outcome of \<^verbatim>\<open>git.Repo(".")\<close>, which
  paths exist, what reading a file gives, the directory tree below the current
  directory, the clock at the n-th reading of it, which directories cannot be created
  and which files cannot be written, and the name of the current directory.
\<close>

record world =
  git_Repo :: "exn + repo"
  path_exists :: "string \<Rightarrow> bool"
  open_read :: "string \<Rightarrow> exn + string"
  top_dir :: dir
  clock :: "nat \<Rightarrow> string"
  mkdir_fails :: "string \<Rightarrow> exn option"
  write_fails :: "string \<Rightarrow> exn option"
  cwd_name :: string

text \<open>
  What a run leaves behind: the JSON documents written, by path and in order, the
  directories created, the lines echoed, and how often the clock was read.
\<close>

record outputs =
  written :: "(string \<times> json) list"
  dirs_made :: "string list"
  echoed :: "string list"
  ticks :: nat

definition echo :: "string \<Rightarrow> outputs \<Rightarrow> outputs" where
  "echo line out = out\<lparr>echoed := echoed out @ [line]\<rparr>"

definition get_git_repo :: "world \<Rightarrow> exn + repo option" where
  "get_git_repo w =
     (case git_Repo w of
        Inr r \<Rightarrow> Inr (Some r)
      | Inl (InvalidGitRepositoryError m) \<Rightarrow> Inr None
      | Inl e \<Rightarrow> Inl e)"

definition commit_dict :: "pylib \<Rightarrow> commit \<Rightarrow> exn + commit_info option" where
  "commit_dict L c =
     bind_exn (stats_files c) (\<lambda>files.
       Inr (Some \<lparr>ci_hash = hexsha c,
                  ci_short_hash = take 7 (hexsha c),
                  ci_message = py_strip L (message c),
                  ci_author = author c,
                  ci_date = committed_datetime c,
                  ci_files_changed = files\<rparr>))"

text \<open>
  \<^verbatim>\<open>get_commit_info\<close>: \<^verbatim>\<open>if commit_hash:\<close> is false for \<^verbatim>\<open>None\<close> and for the
  empty string; only \<^verbatim>\<open>git.BadName\<close> is caught.
\<close>

definition get_commit_info ::
  "pylib \<Rightarrow> repo \<Rightarrow> string option \<Rightarrow> outputs \<Rightarrow> (exn + commit_info option) \<times> outputs" where
  "get_commit_info L r commit_hash out =
     (case commit_hash of
        Some (c # cs) \<Rightarrow>
          (case commit_of r (c # cs) of
             Inl (BadName m) \<Rightarrow>
               (Inr None, echo (''Error: Commit '' @ (c # cs) @ '' not found.'') out)
           | Inl e \<Rightarrow> (Inl e, out)
           | Inr com \<Rightarrow> (commit_dict L com, out))
      | _ \<Rightarrow>
          (case head_commit r of
             Inl e \<Rightarrow> (Inl e, out)
           | Inr com \<Rightarrow> (commit_dict L com, out)))"

definition ensure_directory :: "world \<Rightarrow> string \<Rightarrow> outputs \<Rightarrow> (exn + unit) \<times> outputs" where
  "ensure_directory w path out =
     (case mkdir_fails w path of
        Some e \<Rightarrow> (Inl e, out)
      | None \<Rightarrow> (Inr (), out\<lparr>dirs_made := dirs_made out @ [path]\<rparr>))"

text \<open>\<^verbatim>\<open>with open(path, 'w') as f: json.dump(data, f, ...)\<close>.\<close>

definition write_json :: "world \<Rightarrow> string \<Rightarrow> json \<Rightarrow> outputs \<Rightarrow> (exn + unit) \<times> outputs" where
  "write_json w path data out =
     (case write_fails w path of
        Some e \<Rightarrow> (Inl e, out)
      | None \<Rightarrow> (Inr (), out\<lparr>written := written out @ [(path, data)]\<rparr>))"

text \<open>Sequencing of two steps that carry the output along.\<close>

definition then_do ::
  "(exn + 'a) \<times> outputs \<Rightarrow> ('a \<Rightarrow> outputs \<Rightarrow> (exn + 'b) \<times> outputs) \<Rightarrow> (exn + 'b) \<times> outputs" where
  "then_do m f = (case m of (Inl e, out) \<Rightarrow> (Inl e, out) | (Inr x, out) \<Rightarrow> f x out)"

text \<open>The loop \<^verbatim>\<open>for py_file in python_files\<close> of \<^verbatim>\<open>generate_documentation\<close>.\<close>

fun process_files :: "pylib \<Rightarrow> world \<Rightarrow> string list \<Rightarrow> outputs \<Rightarrow> (exn + string list) \<times> outputs" where
  "process_files L w [] out = (Inr [], out)"
| "process_files L w (py_file # rest) out =
     (let out1 = echo (''  Processing '' @ py_file @ ''...'') out;
          res = extract_from_file L (open_read w) (clock w (ticks out1)) py_file;
          out2 = out1\<lparr>echoed := echoed out1 @ snd res, ticks := Suc (ticks out1)\<rparr>;
          output_path = ''.docshadow/'' @ py_file @ ''.json''
      in then_do (ensure_directory w (path_parent L output_path) out2) (\<lambda>u out3.
         then_do (write_json w output_path (fst res) out3) (\<lambda>u out4.
         then_do (process_files L w rest out4) (\<lambda>documented out5.
           (Inr ((py_file @ ''.json'') # documented), out5)))))"

definition index_data :: "commit_info \<Rightarrow> string list \<Rightarrow> json" where
  "index_data info documented_files =
     JDict [(''commit'', JStr (ci_hash info)),
            (''short_commit'', JStr (ci_short_hash info)),
            (''date'', JStr (ci_date info)),
            (''message'', JStr (ci_message info)),
            (''author'', JStr (ci_author info)),
            (''files'', JList (map JStr documented_files))]"

definition docshadow_data :: "world \<Rightarrow> commit_info \<Rightarrow> string \<Rightarrow> json \<Rightarrow> json" where
  "docshadow_data w info now project_structure =
     JDict [(''project'', JStr (cwd_name w)),
            (''generated_at'', JStr now),
            (''commit'', JStr (ci_hash info)),
            (''structure'', project_structure)]"

text \<open>
  \<^verbatim>\<open>generate_documentation\<close> from the loading of the ignore file on, once the
  repository and the commit are there.
\<close>

definition snapshot :: "pylib \<Rightarrow> world \<Rightarrow> commit_info \<Rightarrow> outputs \<Rightarrow> (exn + bool) \<times> outputs" where
  "snapshot L w info out =
     (let loaded = load_docignore L (path_exists w) (open_read w) ''.docignore'';
          out1 = out\<lparr>echoed := echoed out @ snd loaded\<rparr>;
          python_files = get_python_files L (top_dir w) (fst loaded)
      in if python_files = []
         then (Inr True, echo ''No Python files found to document.'' out1)
         else
           then_do (ensure_directory w ''.docshadow'' out1) (\<lambda>u out2.
           then_do (process_files L w python_files out2) (\<lambda>documented_files out3.
           then_do (write_json w ''.docshadow/index.json''
                      (index_data info documented_files) out3) (\<lambda>u out4.
           then_do (build_project_structure L python_files, out4) (\<lambda>project_structure out5.
           then_do (write_json w ''.docshadow/docshadow.json''
                      (docshadow_data w info (clock w (ticks out5)) project_structure)
                      (out5\<lparr>ticks := Suc (ticks out5)\<rparr>)) (\<lambda>u out6.
             (Inr True,
              echo ''   Structure: .docshadow/docshadow.json''
             (echo ''   Index: .docshadow/index.json''
             (echo (''   '' @ str_of_nat L (length documented_files) @ '' files documented'')
             (echo ''Documentation generated successfully!'' out6))))))))))"

text \<open>The \<^verbatim>\<open>try\<close> block of \<^verbatim>\<open>generate_documentation\<close>.\<close>

definition generate_steps ::
  "pylib \<Rightarrow> world \<Rightarrow> string option \<Rightarrow> outputs \<Rightarrow> (exn + bool) \<times> outputs" where
  "generate_steps L w commit_hash out =
     (case get_git_repo w of
        Inl e \<Rightarrow> (Inl e, out)
      | Inr None \<Rightarrow> (Inr False, echo ''Error: Not in a Git repository.'' out)
      | Inr (Some r) \<Rightarrow>
          then_do (get_commit_info L r commit_hash out) (\<lambda>found out1.
            case found of
              None \<Rightarrow> (Inr False, out1)
            | Some info \<Rightarrow>
                snapshot L w info
                  (echo (''Generating documentation for commit '' @ ci_short_hash info @ ''...'')
                     out1)))"

definition no_outputs :: outputs where
  "no_outputs = \<lparr>written = [], dirs_made = [], echoed = [], ticks = 0\<rparr>"

text \<open>
  \<^verbatim>\<open>generate_documentation\<close>: the \<^verbatim>\<open>try\<close> block, and \<^verbatim>\<open>except Exception\<close>, which
  reports the exception and returns \<^verbatim>\<open>False\<close>.
\<close>

definition generate_documentation :: "pylib \<Rightarrow> world \<Rightarrow> string option \<Rightarrow> bool \<times> outputs" where
  "generate_documentation L w commit_hash =
     (case generate_steps L w commit_hash no_outputs of
        (Inr ok, out) \<Rightarrow> (ok, out)
      | (Inl e, out) \<Rightarrow> (False, echo (''Error generating documentation: '' @ str_exn e) out))"

section \<open>Comparing two runs\<close>

text \<open>A written document without its top-level \<^verbatim>\<open>generated_at\<close> entry.\<close>

fun structural :: "json \<Rightarrow> json" where
  "structural (JDict kvs) = JDict (filter (\<lambda>kv. fst kv \<noteq> ''generated_at'') kvs)"
| "structural j = j"

text \<open>
  Two outputs are alike when they hold the same documents up to \<^verbatim>\<open>generated_at\<close>
  under the same paths and agree on everything else; two results are alike when they
  return the same value (or exception) and leave alike outputs.
\<close>

definition alike :: "outputs \<Rightarrow> outputs \<Rightarrow> bool" where
  "alike o1 o2 =
     (map (\<lambda>pj. (fst pj, structural (snd pj))) (written o1) =
        map (\<lambda>pj. (fst pj, structural (snd pj))) (written o2) \<and>
      dirs_made o1 = dirs_made o2 \<and> echoed o1 = echoed o2 \<and> ticks o1 = ticks o2)"

definition alike_result :: "(exn + 'a) \<times> outputs \<Rightarrow> (exn + 'a) \<times> outputs \<Rightarrow> bool" where
  "alike_result m1 m2 = (fst m1 = fst m2 \<and> alike (snd m1) (snd m2))"

section \<open>A small library instance\<close>

text \<open>
  An instance of the library parameters, to run the model on concrete inputs. The
  conversion of an integer to text raises at the interpreter's default limit of 4300
  digits and otherwise prints a short fixed text, \<^verbatim>\<open>isupper\<close> knows the ASCII
  letters, a path splits at the slashes, a pattern matches the path equal to it, and
  the parser knows three source texts. \<open>huge_int\<close> is the value of the literal
  \<^verbatim>\<open>0x\<close> followed by 3600 times \<^verbatim>\<open>f\<close>: the parser accepts it (the limit does not
  apply to hexadecimal literals) and it has more than 4300 decimal digits.
\<close>

definition int_str_limit :: int where
  "int_str_limit = 10 ^ 4300"

definition huge_int :: int where
  "huge_int = 16 ^ 3600 - 1"

fun demo_repr :: "pyconst \<Rightarrow> exn + string" where
  "demo_repr (CInt i) =
     (if int_str_limit \<le> \<bar>i\<bar>
      then Inl (ValueError ''Exceeds the limit (4300 digits) for integer string conversion'')
      else Inr (if i = 1 then ''1'' else if i = 2 then ''2'' else ''0''))"
| "demo_repr (CStr s) = Inr ''<str>''"
| "demo_repr CNone = Inr ''None''"
| "demo_repr c = Inr ''<const>''"

definition is_upper_char :: "char \<Rightarrow> bool" where
  "is_upper_char c = (65 \<le> (of_char c :: nat) \<and> (of_char c :: nat) \<le> 90)"

definition is_lower_char :: "char \<Rightarrow> bool" where
  "is_lower_char c = (97 \<le> (of_char c :: nat) \<and> (of_char c :: nat) \<le> 122)"

definition demo_isupper :: "string \<Rightarrow> bool" where
  "demo_isupper s = (list_ex is_upper_char s \<and> \<not> list_ex is_lower_char s)"

fun split_slash :: "string \<Rightarrow> string \<Rightarrow> string list" where
  "split_slash acc [] = [acc]"
| "split_slash acc (c # cs) =
     (if c = CHR ''/'' then acc # split_slash [] cs else split_slash (acc @ [c]) cs)"

fun demo_match :: "pathspec \<Rightarrow> string \<Rightarrow> bool" where
  "demo_match (PathSpec ls) p = List.member ls p"

definition demo_tree :: "stmt list" where
  "demo_tree =
     [Expr (Constant (CStr ''doc'')),
      Import [Alias ''os'' None],
      Assign [Name ''MAX''] (Constant (CInt 1)) 3,
      ClassDef ''Foo'' []
        [FunctionDef ''bar''
           \<lparr>posonlyargs = [], args = [Arg ''self'' None, Arg ''x'' None, Arg ''y'' None],
            vararg = None, kwonlyargs = [], kw_defaults = [], kwarg = None,
            defaults = [Constant (CInt 1)]\<rparr>
           [OtherStmt ''pass''] [Name ''property''] None 5,
         AsyncFunctionDef ''baz''
           \<lparr>posonlyargs = [], args = [Arg ''self'' None],
            vararg = None, kwonlyargs = [], kw_defaults = [], kwarg = None,
            defaults = []\<rparr>
           [OtherStmt ''pass''] [] None 7,
         ClassDef ''Inner'' [] [OtherStmt ''pass''] [] 9] [] 4,
      FunctionDef ''top''
        \<lparr>posonlyargs = [], args = [], vararg = None, kwonlyargs = [], kw_defaults = [],
         kwarg = None, defaults = []\<rparr>
        [FunctionDef ''local''
           \<lparr>posonlyargs = [], args = [], vararg = None, kwonlyargs = [], kw_defaults = [],
            kwarg = None, defaults = []\<rparr>
           [OtherStmt ''pass''] [] None 12] [] None 11,
      AsyncFunctionDef ''serve''
        \<lparr>posonlyargs = [], args = [], vararg = None, kwonlyargs = [], kw_defaults = [],
         kwarg = None, defaults = []\<rparr>
        [OtherStmt ''pass''] [] None 14]"

definition demo_huge_tree :: "stmt list" where
  "demo_huge_tree = [Assign [Name ''X''] (Constant (CInt huge_int)) 1]"

definition demo_parse :: "string \<Rightarrow> string \<Rightarrow> exn + stmt list" where
  "demo_parse source_code filename =
     (if source_code = ''good'' then Inr demo_tree
      else if source_code = ''huge'' then Inr demo_huge_tree
      else if source_code = [] then Inr []
      else Inl (SyntaxError ''invalid syntax''))"

definition demo_lib :: pylib where
  "demo_lib =
     \<lparr>py_repr = demo_repr, py_str = demo_repr, ast_dump = (\<lambda>e. Inr ''<dump>''),
      str_isupper = demo_isupper, recursion_limit = 1000,
      cleandoc = (\<lambda>s. s), ast_parse = demo_parse,
      path_parts = split_slash [], path_parent = (\<lambda>p. p),
      splitlines = (\<lambda>s. [s]), from_lines = (\<lambda>ls. Inr (PathSpec ls)),
      match_file = demo_match, py_strip = (\<lambda>s. s), str_of_nat = (\<lambda>n. ''n'')\<rparr>"

definition demo_arguments :: arguments where
  "demo_arguments =
     \<lparr>posonlyargs = [Arg ''p'' None], args = [Arg ''x'' None, Arg ''y'' (Some (Name ''int'')), Arg ''z'' None],
      vararg = Some (Arg ''rest'' None), kwonlyargs = [Arg ''k'' None],
      kw_defaults = [Some (Constant (CInt 0))], kwarg = Some (Arg ''opts'' None),
      defaults = [Constant (CInt 1), ListExpr []]\<rparr>"

definition demo_huge_arguments :: arguments where
  "demo_huge_arguments =
     \<lparr>posonlyargs = [], args = [Arg ''x'' None], vararg = None, kwonlyargs = [],
      kw_defaults = [], kwarg = None, defaults = [Constant (CInt huge_int)]\<rparr>"


definition demo_assignments :: "stmt list" where
  "demo_assignments =
     [Assign [Name ''MAX''] (Constant (CInt 1)) 1,
      Assign [Name ''MAX'', Name ''MIN''] (Constant (CInt 2)) 2,
      Assign [Name ''max''] (Constant (CInt 1)) 3,
      Assign [TupleExpr [Name ''MAX'', Name ''MIN'']]
        (TupleExpr [Constant (CInt 1), Constant (CInt 2)]) 4,
      AnnAssign (Name ''LIMIT'') (Name ''int'') (Some (Constant (CInt 1))) 5]"


definition demo_open :: "string \<Rightarrow> exn + string" where
  "demo_open p =
     (if p = ''a.py'' then Inr ''good''
      else if p = ''b.py'' then Inr ''def (''
      else if p = ''big.py'' then Inr ''huge''
      else Inl (OSError ''No such file or directory''))"

definition demo_dir :: dir where
  "demo_dir =
     Dir [''a.py'', ''notes.md'']
       [(''pkg'', Dir [''b.py''] []), (''.git'', Dir [''hook.py''] [])]"

definition demo_commit :: commit where
  "demo_commit =
     \<lparr>hexsha = ''0123456789abcdef'', message = ''first'', author = ''someone'',
      committed_datetime = ''2024-01-01T00:00:00'', stats_files = Inr [''a.py'']\<rparr>"

definition demo_repo :: repo where
  "demo_repo =
     \<lparr>commit_of = (\<lambda>h. if h = ''0123456'' then Inr demo_commit
                        else if h = ''deadbeef'' then Inl (ValueError ''bad object'')
                        else Inl (BadName h)),
      head_commit = Inr demo_commit\<rparr>"

definition demo_world :: world where
  "demo_world =
     \<lparr>git_Repo = Inr demo_repo, path_exists = (\<lambda>p. False), open_read = demo_open,
      top_dir = demo_dir, clock = (\<lambda>n. ''t''), mkdir_fails = (\<lambda>p. None),
      write_fails = (\<lambda>p. None), cwd_name = ''project''\<rparr>"

section \<open>Sequencing and loops\<close>

lemma bind_exn_Inr [simp]: "bind_exn (Inr x) f = f x"
  by (simp add: bind_exn_def)

lemma bind_exn_Inl [simp]: "bind_exn (Inl e) f = Inl e"
  by (simp add: bind_exn_def)

lemma bind_exn_eq_Inr: "(bind_exn m f = Inr y) = (\<exists>x. m = Inr x \<and> f x = Inr y)"
  by (cases m) simp_all

lemma map_exn_Inr_iff: "(map_exn f xs = Inr ys) = (map f xs = map Inr ys)"
proof (induction xs arbitrary: ys)
  case Nil
  show ?case by auto
next
  case (Cons x xs)
  show ?case
  proof (cases "f x")
    case (Inl e)
    then show ?thesis by (cases ys) auto
  next
    case fx: (Inr y)
    show ?thesis
    proof (cases "map_exn f xs")
      case (Inl e)
      have "map f xs \<noteq> map Inr zs" for zs
        using Cons.IH [of zs] Inl by auto
      with fx Inl show ?thesis by (cases ys) auto
    next
      case (Inr zs)
      with Cons.IH [of zs] have m: "map f xs = map Inr zs" by simp
      from fx Inr m show ?thesis
        by (cases ys) (auto simp: inj_map_eq_map [OF inj_Inr])
    qed
  qed
qed

lemma map_exn_map: "map_exn f (map g xs) = map_exn (\<lambda>x. f (g x)) xs"
  by (induction xs) simp_all

lemma map_exn_cong_set: "(\<And>x. x \<in> set xs \<Longrightarrow> f x = g x) \<Longrightarrow> map_exn f xs = map_exn g xs"
  by (induction xs) simp_all

lemma map_exn_length: "map_exn f xs = Inr ys \<Longrightarrow> length ys = length xs"
  by (simp add: map_exn_Inr_iff) (metis length_map)

lemma map_exn_nth: "map_exn f xs = Inr ys \<Longrightarrow> i < length xs \<Longrightarrow> f (xs ! i) = Inr (ys ! i)"
  by (simp add: map_exn_Inr_iff) (metis length_map nth_map)

lemma py_index_in_range: "0 \<le> i \<Longrightarrow> i < int (length xs) \<Longrightarrow> py_index xs i = Inr (xs ! nat i)"
  by (simp add: py_index_def)

section \<open>Properties of the argument list\<close>

lemma regular_arg_info_ok:
  assumes "i < length (args a)"
  shows "regular_arg_info L a (int i) x =
    bind_exn (get_annotation L (annotation x)) (\<lambda>typ.
      if int (length (args a)) - int (length (defaults a)) \<le> int i
      then bind_exn (get_value_repr L
               (defaults a ! nat (int i - (int (length (args a)) - int (length (defaults a))))))
             (\<lambda>dv. Inr (JDict [(''name'', JStr (arg_name x)), (''type'', json_opt typ),
                               (''has_default'', JBool True), (''default'', JStr dv)]))
      else Inr (JDict [(''name'', JStr (arg_name x)), (''type'', json_opt typ),
                       (''has_default'', JBool False), (''default'', JNull)]))"
proof (cases x)
  case (Arg ident ann)
  show ?thesis
  proof (cases "get_annotation L ann")
    case (Inl e)
    then show ?thesis by (simp add: Arg regular_arg_info_def)
  next
    case (Inr ty)
    then show ?thesis using assms
      by (simp add: Arg regular_arg_info_def Let_def py_index_in_range get_default_value_def)
  qed
qed

lemma regular_args_loop_ok:
  assumes "k + length xs \<le> length (args a)"
  shows "regular_args_loop L a (int k) xs =
    map_exn (\<lambda>(i, x).
      bind_exn (get_annotation L (annotation x)) (\<lambda>typ.
        if int (length (args a)) - int (length (defaults a)) \<le> int i
        then bind_exn (get_value_repr L
                 (defaults a ! nat (int i - (int (length (args a)) - int (length (defaults a))))))
               (\<lambda>dv. Inr (JDict [(''name'', JStr (arg_name x)), (''type'', json_opt typ),
                                 (''has_default'', JBool True), (''default'', JStr dv)]))
        else Inr (JDict [(''name'', JStr (arg_name x)), (''type'', json_opt typ),
                         (''has_default'', JBool False), (''default'', JNull)])))
      (zip [k..<k + length xs] xs)"
  using assms
proof (induction xs arbitrary: k)
  case Nil
  then show ?case by simp
next
  case (Cons x xs)
  have lt: "k < length (args a)" using Cons.prems by simp
  have step: "int k + 1 = int (Suc k)" by simp
  have rest: "Suc k + length xs \<le> length (args a)" using Cons.prems by simp
  have up: "[k..<k + length (x # xs)] = k # [Suc k..<Suc k + length xs]"
    by (subst upt_rec) simp
  show ?case
    unfolding regular_args_loop.simps step up
    by (simp only: regular_arg_info_ok[OF lt] Cons.IH[OF rest] zip_Cons_Cons map_exn.simps
          prod.case)
qed

lemma zip_upt_nth: "zip [0..<length xs] xs = map (\<lambda>i. (i, xs ! i)) [0..<length xs]"
  by (rule nth_equalityI) simp_all

lemma extract_arguments_ok:
  "extract_arguments L a =
    bind_exn (map_exn (\<lambda>i.
      bind_exn (get_annotation L (annotation (args a ! i))) (\<lambda>typ.
        if int (length (args a)) - int (length (defaults a)) \<le> int i
        then bind_exn (get_value_repr L
                 (defaults a ! nat (int i - (int (length (args a)) - int (length (defaults a))))))
               (\<lambda>dv. Inr (JDict [(''name'', JStr (arg_name (args a ! i))), (''type'', json_opt typ),
                                 (''has_default'', JBool True), (''default'', JStr dv)]))
        else Inr (JDict [(''name'', JStr (arg_name (args a ! i))), (''type'', json_opt typ),
                         (''has_default'', JBool False), (''default'', JNull)])))
      [0..<length (args a)]) (\<lambda>regular.
    bind_exn (vararg_info L (vararg a)) (\<lambda>star.
    bind_exn (kwarg_info L (kwarg a)) (\<lambda>starstar.
      Inr (regular @ star @ starstar))))"
proof -
  have "regular_args_loop L a (int 0) (args a) =
    map_exn (\<lambda>(i, x).
      bind_exn (get_annotation L (annotation x)) (\<lambda>typ.
        if int (length (args a)) - int (length (defaults a)) \<le> int i
        then bind_exn (get_value_repr L
                 (defaults a ! nat (int i - (int (length (args a)) - int (length (defaults a))))))
               (\<lambda>dv. Inr (JDict [(''name'', JStr (arg_name x)), (''type'', json_opt typ),
                                 (''has_default'', JBool True), (''default'', JStr dv)]))
        else Inr (JDict [(''name'', JStr (arg_name x)), (''type'', json_opt typ),
                         (''has_default'', JBool False), (''default'', JNull)])))
      (zip [0..<0 + length (args a)] (args a))"
    by (rule regular_args_loop_ok) simp
  then show ?thesis
    by (simp add: extract_arguments_def zip_upt_nth map_exn_map)
qed

lemma vararg_info_eq:
  "vararg_info L v =
     (case v of None \<Rightarrow> Inr []
      | Some x \<Rightarrow> bind_exn (get_annotation L (annotation x)) (\<lambda>typ.
           Inr [JDict [(''name'', JStr (''*'' @ arg_name x)), (''type'', json_opt typ),
                       (''is_vararg'', JBool True)]]))"
  by (simp add: vararg_info_def split: option.splits arg.splits)

lemma kwarg_info_eq:
  "kwarg_info L k =
     (case k of None \<Rightarrow> Inr []
      | Some x \<Rightarrow> bind_exn (get_annotation L (annotation x)) (\<lambda>typ.
           Inr [JDict [(''name'', JStr (''**'' @ arg_name x)), (''type'', json_opt typ),
                       (''is_kwarg'', JBool True)]]))"
  by (simp add: kwarg_info_def split: option.splits arg.splits)

lemma ten_pow_below: "(10::int) ^ 4300 < 16 ^ 3600"
proof -
  have s: "(10::int) ^ 43 < 16 ^ 36" by simp
  have "((10::int) ^ 43) ^ 100 < (16 ^ 36) ^ 100"
    by (rule power_strict_mono [OF s]) simp_all
  then have "(10::int) ^ (43 * 100) < 16 ^ (36 * 100)"
    by (simp only: power_mult)
  moreover have "43 * 100 = (4300::nat)" "36 * 100 = (3600::nat)" by simp_all
  ultimately show ?thesis by (simp only:)
qed

lemma huge_int_over_limit: "int_str_limit \<le> \<bar>huge_int\<bar>"
proof -
  have "(10::int) ^ 4300 \<le> 16 ^ 3600 - 1"
    using ten_pow_below by (simp only: zle_diff1_eq)
  then show ?thesis
    unfolding int_str_limit_def huge_int_def by (rule order_trans [OF _ abs_ge_self])
qed

lemma small_int_under_limit: "\<bar>i\<bar> < 10000 \<Longrightarrow> (int_str_limit \<le> \<bar>i\<bar>) = False"
proof -
  assume a: "\<bar>i\<bar> < 10000"
  have "(10::int) ^ 4 \<le> 10 ^ 4300" by (rule power_increasing) simp_all
  moreover have "(10::int) ^ 4 = 10000" by simp
  ultimately have "(10000::int) \<le> 10 ^ 4300" by (simp only:)
  with a have "\<bar>i\<bar> < 10 ^ 4300" by (rule less_le_trans)
  then show ?thesis unfolding int_str_limit_def by (simp only: not_le [symmetric])
qed

lemma demo_repr_huge:
  "demo_repr (CInt huge_int) =
     Inl (ValueError ''Exceeds the limit (4300 digits) for integer string conversion'')"
  by (simp add: huge_int_over_limit)

lemma small_ints_under_limit:
  "\<not> int_str_limit \<le> 0" "\<not> int_str_limit \<le> 1" "\<not> int_str_limit \<le> 2"
  using small_int_under_limit [of 0] small_int_under_limit [of 1] small_int_under_limit [of 2]
  by simp_all




lemma vararg_info_names:
  "vararg_info L v = Inr star \<Longrightarrow>
   map (json_get ''name'') star =
     (case v of None \<Rightarrow> [] | Some x \<Rightarrow> [Some (JStr (''*'' @ arg_name x))])"
  by (auto simp: vararg_info_eq bind_exn_eq_Inr split: option.splits)

lemma kwarg_info_names:
  "kwarg_info L k = Inr starstar \<Longrightarrow>
   map (json_get ''name'') starstar =
     (case k of None \<Rightarrow> [] | Some x \<Rightarrow> [Some (JStr (''**'' @ arg_name x))])"
  by (auto simp: kwarg_info_eq bind_exn_eq_Inr split: option.splits)

lemma extract_arguments_names:
  assumes "extract_arguments L a = Inr entries"
  shows "map (json_get ''name'') entries =
       map (\<lambda>x. Some (JStr (arg_name x))) (args a)
       @ (case vararg a of None \<Rightarrow> [] | Some v \<Rightarrow> [Some (JStr (''*'' @ arg_name v))])
       @ (case kwarg a of None \<Rightarrow> [] | Some k \<Rightarrow> [Some (JStr (''**'' @ arg_name k))])"
proof -
  let ?entry = "\<lambda>i.
      bind_exn (get_annotation L (annotation (args a ! i))) (\<lambda>typ.
        if int (length (args a)) - int (length (defaults a)) \<le> int i
        then bind_exn (get_value_repr L
                 (defaults a ! nat (int i - (int (length (args a)) - int (length (defaults a))))))
               (\<lambda>dv. Inr (JDict [(''name'', JStr (arg_name (args a ! i))), (''type'', json_opt typ),
                                 (''has_default'', JBool True), (''default'', JStr dv)]))
        else Inr (JDict [(''name'', JStr (arg_name (args a ! i))), (''type'', json_opt typ),
                         (''has_default'', JBool False), (''default'', JNull)]))"
  from assms [unfolded extract_arguments_ok] obtain regular star starstar where
    m: "map_exn ?entry [0..<length (args a)] = Inr regular"
    and v: "vararg_info L (vararg a) = Inr star"
    and k: "kwarg_info L (kwarg a) = Inr starstar"
    and e: "entries = regular @ star @ starstar"
    by (auto simp: bind_exn_eq_Inr)
  from map_exn_length [OF m] have len: "length regular = length (args a)" by simp
  have name: "json_get ''name'' (regular ! i) = Some (JStr (arg_name (args a ! i)))"
    if i: "i < length (args a)" for i
  proof -
    have ni: "[0..<length (args a)] ! i = i" using i by simp
    have "?entry ([0..<length (args a)] ! i) = Inr (regular ! i)"
      by (rule map_exn_nth [OF m]) (use i in simp)
    then have "?entry i = Inr (regular ! i)" unfolding ni .
    moreover have "json_get ''name'' d = Some (JStr (arg_name (args a ! i)))"
      if "?entry i = Inr d" for d
      using that by (auto simp: bind_exn_eq_Inr split: if_splits)
    ultimately show ?thesis by blast
  qed
  have "map (json_get ''name'') regular = map (\<lambda>x. Some (JStr (arg_name x))) (args a)"
    by (rule nth_equalityI) (simp_all add: len name)
  with vararg_info_names [OF v] kwarg_info_names [OF k] e show ?thesis by simp
qed

lemma function_info_arguments:
  assumes "function_info L node nm a body decs ret ln is_method = Inr r"
  shows "\<exists>entries. extract_arguments L a = Inr entries \<and>
           json_get ''arguments'' r = Some (JList entries)"
  using assms by (auto simp: function_info_def bind_exn_eq_Inr)

text \<open>
  Claim C10, as amended. Whenever the extraction of a function's arguments returns, the
  names of the entries are exactly the names of the plain positional parameters, in
  order, followed by the \<^verbatim>\<open>*\<close> entry and the \<^verbatim>\<open>**\<close> entry when present; the
  positional-only and the keyword-only parameters (and the defaults of the latter) have
  no influence on the outcome, list or exception, whatever they are; and the
  \<^verbatim>\<open>arguments\<close> entry of every function record, of a function or of an async function
  node, is that list.
\<close>

theorem extract_arguments_only_plain_positional:
  "(\<forall>entries. extract_arguments L a = Inr entries \<longrightarrow>
      map (json_get ''name'') entries =
        map (\<lambda>x. Some (JStr (arg_name x))) (args a)
        @ (case vararg a of None \<Rightarrow> [] | Some v \<Rightarrow> [Some (JStr (''*'' @ arg_name v))])
        @ (case kwarg a of None \<Rightarrow> [] | Some k \<Rightarrow> [Some (JStr (''**'' @ arg_name k))]))
   \<and> extract_arguments L (a\<lparr>posonlyargs := ps, kwonlyargs := ks, kw_defaults := kds\<rparr>) =
       extract_arguments L a
   \<and> (\<forall>r. extract_function_info L (FunctionDef nm a body decs ret ln) is_method = Inr r \<longrightarrow>
        (\<exists>entries. extract_arguments L a = Inr entries \<and>
           json_get ''arguments'' r = Some (JList entries)))
   \<and> (\<forall>r. extract_function_info L (AsyncFunctionDef nm a body decs ret ln) is_method = Inr r \<longrightarrow>
        (\<exists>entries. extract_arguments L a = Inr entries \<and>
           json_get ''arguments'' r = Some (JList entries)))"
proof -
  have same: "extract_arguments L (a\<lparr>posonlyargs := ps, kwonlyargs := ks, kw_defaults := kds\<rparr>) =
       extract_arguments L a"
    unfolding extract_arguments_ok by (simp cong: if_cong)
  from same extract_arguments_names [of L a] function_info_arguments [of L _ nm a body decs ret ln]
  show ?thesis by (simp del: json_get.simps)
qed

lemma demo_arguments_entries:
  "extract_arguments demo_lib demo_arguments =
     Inr [JDict [(''name'', JStr ''x''), (''type'', JNull), (''has_default'', JBool False), (''default'', JNull)],
          JDict [(''name'', JStr ''y''), (''type'', JStr ''int''), (''has_default'', JBool True), (''default'', JStr ''1'')],
          JDict [(''name'', JStr ''z''), (''type'', JNull), (''has_default'', JBool True), (''default'', JStr ''[...]'')],
          JDict [(''name'', JStr ''*rest''), (''type'', JNull), (''is_vararg'', JBool True)],
          JDict [(''name'', JStr ''**opts''), (''type'', JNull), (''is_kwarg'', JBool True)]]"
  by (simp add: demo_arguments_def extract_arguments_def regular_arg_info_def
        vararg_info_def kwarg_info_def get_annotation_def get_name_def py_index_def
        get_default_value_def demo_lib_def small_ints_under_limit)

theorem extract_arguments_only_plain_positional_witness:
  "\<exists>entries. extract_arguments demo_lib demo_arguments = Inr entries \<and>
     map (json_get ''name'') entries =
       [Some (JStr ''x''), Some (JStr ''y''), Some (JStr ''z''),
        Some (JStr ''*rest''), Some (JStr ''**opts'')]"
proof -
  obtain entries where e: "extract_arguments demo_lib demo_arguments = Inr entries"
    using demo_arguments_entries by blast
  from extract_arguments_only_plain_positional
    [where L = demo_lib and a = demo_arguments and ps = "[]" and ks = "[]" and kds = "[]"] e
  have "map (json_get ''name'') entries =
       map (\<lambda>x. Some (JStr (arg_name x))) (args demo_arguments)
        @ (case vararg demo_arguments of None \<Rightarrow> []
           | Some v \<Rightarrow> [Some (JStr (''*'' @ arg_name v))])
        @ (case kwarg demo_arguments of None \<Rightarrow> []
           | Some k \<Rightarrow> [Some (JStr (''**'' @ arg_name k))])"
    by blast
  then have n: "map (json_get ''name'') entries =
       [Some (JStr ''x''), Some (JStr ''y''), Some (JStr ''z''),
        Some (JStr ''*rest''), Some (JStr ''**opts'')]"
    by (simp add: demo_arguments_def)
  show ?thesis by (intro exI [of _ entries] conjI) (fact e n)+
qed

text \<open>
  The claim as it is written fails at \<^verbatim>\<open>def f(x=0xff...f)\<close> with 3600 digits:
  representing the default raises, so the function has no extracted arguments and no
  function record.
\<close>

theorem huge_default_yields_no_function_record:
  "extract_function_info demo_lib
     (FunctionDef ''f'' demo_huge_arguments [OtherStmt ''pass''] [] None 1) False =
     Inl (ValueError ''Exceeds the limit (4300 digits) for integer string conversion'')"
  by (simp add: function_info_def demo_huge_arguments_def extract_arguments_def
        regular_arg_info_def get_annotation_def py_index_def get_default_value_def
        demo_lib_def demo_repr_huge del: demo_repr.simps)

section \<open>Properties of functions, methods and classes\<close>

lemma extract_functions_map:
  "extract_functions L body =
     map_exn (\<lambda>node. extract_function_info L node False) (filter is_FunctionDef body)"
  by (induction body) simp_all

lemma extract_methods_map:
  "extract_methods L body =
     map_exn (\<lambda>node. extract_function_info L node True) (filter is_FunctionDef body)"
  by (induction body) simp_all

lemma extract_classes_loop_map:
  "extract_classes_loop L nodes = map_exn (class_info L) (filter is_ClassDef nodes)"
  by (induction nodes) simp_all

lemma function_info_is_async:
  "function_info L node nm a body decs ret ln is_method = Inr r \<Longrightarrow>
   json_get ''is_async'' r = Some (JBool (is_AsyncFunctionDef node))"
  by (auto simp: function_info_def bind_exn_eq_Inr)

lemma extract_function_info_FunctionDef:
  assumes "is_FunctionDef node" "extract_function_info L node is_method = Inr r"
  shows "json_get ''is_async'' r = Some (JBool False)"
proof (cases node)
  case (FunctionDef nm a body decs ret ln)
  with assms(2) function_info_is_async [of L node nm a body decs ret ln is_method r]
  show ?thesis by simp
qed (use assms in simp_all)

lemma extract_function_info_AsyncFunctionDef:
  assumes "extract_function_info L (AsyncFunctionDef nm a body decs ret ln) is_method = Inr r"
  shows "json_get ''is_async'' r = Some (JBool True)"
  using assms
    function_info_is_async [of L "AsyncFunctionDef nm a body decs ret ln" nm a body decs ret ln
      is_method r]
  by simp

lemma map_exn_all:
  assumes "map_exn f xs = Inr ys" and "\<And>x y. x \<in> set xs \<Longrightarrow> f x = Inr y \<Longrightarrow> P y"
  shows "list_all P ys"
  using assms
proof (induction xs arbitrary: ys)
  case Nil
  then show ?case by simp
next
  case (Cons x xs)
  from Cons.prems(1) obtain y zs where y: "f x = Inr y" and zs: "map_exn f xs = Inr zs"
    and ys: "ys = y # zs"
    by (auto simp: bind_exn_eq_Inr)
  have "P y" using Cons.prems(2) [of x y] y by simp
  moreover have "list_all P zs"
    by (rule Cons.IH [OF zs]) (rule Cons.prems(2), simp_all)
  ultimately show ?case using ys by simp
qed

lemma extract_functions_not_async:
  "extract_functions L body = Inr functions \<Longrightarrow>
   list_all (\<lambda>f. json_get ''is_async'' f = Some (JBool False)) functions"
  unfolding extract_functions_map
  by (erule map_exn_all) (auto intro: extract_function_info_FunctionDef)

lemma extract_methods_not_async:
  "extract_methods L body = Inr methods \<Longrightarrow>
   list_all (\<lambda>f. json_get ''is_async'' f = Some (JBool False)) methods"
  unfolding extract_methods_map
  by (erule map_exn_all) (auto intro: extract_function_info_FunctionDef)

lemma not_both_kinds: "is_FunctionDef node \<Longrightarrow> \<not> is_AsyncFunctionDef node"
  by (cases node) simp_all

lemma extract_functions_drop_async:
  "extract_functions L (filter (\<lambda>node. \<not> is_AsyncFunctionDef node) body) = extract_functions L body"
  by (induction body) (auto dest: not_both_kinds)

lemma extract_methods_drop_async:
  "extract_methods L (filter (\<lambda>node. \<not> is_AsyncFunctionDef node) body) = extract_methods L body"
  by (induction body) (auto dest: not_both_kinds)




lemma class_info_record:
  assumes "class_info L (ClassDef nm bases body decs ln) = Inr c"
  shows "json_keys c = [''name'', ''docstring'', ''line_number'', ''bases'', ''decorators'',
                        ''methods'', ''properties''] \<and>
         json_get ''properties'' c = Some (JList (extract_properties L body)) \<and>
         (\<exists>methods. extract_methods L body = Inr methods \<and>
                    json_get ''methods'' c = Some (JList methods))"
  using assms by (auto simp: bind_exn_eq_Inr)




lemmas demo_eval =
  function_info_def extract_arguments_def regular_arg_info_def vararg_info_def kwarg_info_def
  get_annotation_def get_return_annotation_def get_name_def get_default_value_def py_index_def
  demo_lib_def small_ints_under_limit


lemma demo_tree_functions:
  "\<exists>functions. extract_functions demo_lib demo_tree = Inr functions \<and>
      map (json_get ''name'') functions = [Some (JStr ''top'')]"
  by (simp add: demo_tree_def demo_eval)

lemma demo_tree_walk_classes:
  "filter is_ClassDef (walk_queue demo_tree) =
     [ClassDef ''Foo'' []
        [FunctionDef ''bar''
           \<lparr>posonlyargs = [], args = [Arg ''self'' None, Arg ''x'' None, Arg ''y'' None],
            vararg = None, kwonlyargs = [], kw_defaults = [], kwarg = None,
            defaults = [Constant (CInt 1)]\<rparr>
           [OtherStmt ''pass''] [Name ''property''] None 5,
         AsyncFunctionDef ''baz''
           \<lparr>posonlyargs = [], args = [Arg ''self'' None],
            vararg = None, kwonlyargs = [], kw_defaults = [], kwarg = None,
            defaults = []\<rparr>
           [OtherStmt ''pass''] [] None 7,
         ClassDef ''Inner'' [] [OtherStmt ''pass''] [] 9] [] 4,
      ClassDef ''Inner'' [] [OtherStmt ''pass''] [] 9]"
  by (simp add: demo_tree_def)

lemma demo_tree_classes:
  "\<exists>classes. extract_classes demo_lib demo_tree = Inr classes \<and>
      map (json_get ''name'') classes = [Some (JStr ''Foo''), Some (JStr ''Inner'')]"
  unfolding extract_classes_def extract_classes_loop_map demo_tree_walk_classes
  by (simp add: demo_eval)




text \<open>
  Claim C9. Every record of a module-level functions list and of a methods list has
  \<^verbatim>\<open>is_async\<close> false, and neither list (nor the exception raised in its place)
  changes when the async function definitions are taken out of the body: they are never
  reported. Both lists go through the function definitions that are not async, one
  record each. The test itself is live: on an async definition
  \<^verbatim>\<open>_extract_function_info\<close> answers \<^verbatim>\<open>is_async\<close> true, but no collector calls it on
  one. The methods list of a class record is the one built from the class body.
\<close>

theorem async_definitions_never_reported:
  "(\<forall>functions. extract_functions L body = Inr functions \<longrightarrow>
       list_all (\<lambda>f. json_get ''is_async'' f = Some (JBool False)) functions)
   \<and> (\<forall>methods. extract_methods L body = Inr methods \<longrightarrow>
       list_all (\<lambda>f. json_get ''is_async'' f = Some (JBool False)) methods)
   \<and> (\<forall>c. class_info L (ClassDef nm bases body decs ln) = Inr c \<longrightarrow>
        (\<exists>methods. extract_methods L body = Inr methods \<and>
            json_get ''methods'' c = Some (JList methods)))
   \<and> extract_functions L (filter (\<lambda>node. \<not> is_AsyncFunctionDef node) body) =
       extract_functions L body
   \<and> extract_methods L (filter (\<lambda>node. \<not> is_AsyncFunctionDef node) body) =
       extract_methods L body
   \<and> extract_functions L body =
       map_exn (\<lambda>node. extract_function_info L node False) (filter is_FunctionDef body)
   \<and> extract_methods L body =
       map_exn (\<lambda>node. extract_function_info L node True) (filter is_FunctionDef body)
   \<and> (\<forall>r. extract_function_info L (AsyncFunctionDef fnm a fbody fdecs ret fln) is_method = Inr r
          \<longrightarrow> json_get ''is_async'' r = Some (JBool True))"
  using extract_functions_not_async [of L body] extract_methods_not_async [of L body]
    class_info_record [of L nm bases body decs ln]
    extract_functions_drop_async [of L body] extract_methods_drop_async [of L body]
    extract_functions_map [of L body] extract_methods_map [of L body]
    extract_function_info_AsyncFunctionDef [of L fnm a fbody fdecs ret fln is_method]
  by blast

theorem async_definitions_never_reported_witness:
  "\<exists>functions. extract_functions demo_lib demo_tree = Inr functions \<and>
      map (json_get ''name'') functions = [Some (JStr ''top'')] \<and>
      map (json_get ''is_async'') functions = [Some (JBool False)]"
proof -
  from demo_tree_functions obtain funs where
    f: "extract_functions demo_lib demo_tree = Inr funs"
    and n: "map (json_get ''name'') funs = [Some (JStr ''top'')]"
    by (elim exE conjE)
  from async_definitions_never_reported [of demo_lib demo_tree] f
  have a: "list_all (\<lambda>f. json_get ''is_async'' f = Some (JBool False)) funs"
    by blast
  from n obtain r where r: "funs = [r]" by auto
  with a have "map (json_get ''is_async'') funs = [Some (JBool False)]" by simp
  with f n show ?thesis by (intro exI [of _ funs] conjI)
qed




section \<open>Properties of the constants\<close>

lemma map_exn_append:
  "map_exn f (xs @ ys) =
     bind_exn (map_exn f xs) (\<lambda>a. bind_exn (map_exn f ys) (\<lambda>b. Inr (a @ b)))"
proof (induction xs)
  case Nil
  show ?case by (cases "map_exn f ys") simp_all
next
  case (Cons x xs)
  show ?case
  proof (cases "f x")
    case (Inl e)
    then show ?thesis by simp
  next
    case fx: (Inr y)
    show ?thesis
    proof (cases "map_exn f xs")
      case (Inl e)
      with fx Cons show ?thesis by simp
    next
      case (Inr zs)
      with fx Cons show ?thesis by (cases "map_exn f ys") simp_all
    qed
  qed
qed

lemma bind_exn_assoc:
  "bind_exn (bind_exn m f) g = bind_exn m (\<lambda>x. bind_exn (f x) g)"
  by (cases m) simp_all

lemma targets_loop_names:
  "targets_loop L targets val ln =
     map_exn (\<lambda>(ident, ln, val).
                bind_exn (get_value_repr L val) (\<lambda>v. Inr (constant_info ident ln v)))
       [(ident, ln, val). Name ident \<leftarrow> targets, str_isupper L ident]"
  by (induction L targets val ln rule: targets_loop.induct) (simp_all add: bind_exn_assoc)

text \<open>
  Claim C2, as amended. The constants of a module come from the targets of its
  \<^verbatim>\<open>Assign\<close> statements that are plain names for which \<^verbatim>\<open>str.isupper\<close> holds,
  statement by statement in the order of the body and target by target in the order of
  the targets; a target of another shape and a statement of another kind contribute
  nothing. For each of them in turn the value of the statement is represented and one
  record is made of the name, the line number of the statement and the representation;
  when a representation raises, the extraction of the constants raises.
\<close>

theorem extract_constants_name_targets:
  "extract_constants L body =
     map_exn (\<lambda>(ident, ln, val).
                bind_exn (get_value_repr L val) (\<lambda>v. Inr (constant_info ident ln v)))
       (concat (map (\<lambda>node. case node of
                       Assign targets val ln \<Rightarrow>
                         [(ident, ln, val). Name ident \<leftarrow> targets, str_isupper L ident]
                     | _ \<Rightarrow> []) body))"
  by (induction L body rule: extract_constants.induct)
     (simp_all add: targets_loop_names map_exn_append)

lemma demo_isupper_examples:
  "demo_isupper ''MAX''" "demo_isupper ''MIN''" "\<not> demo_isupper ''max''"
  by (simp_all add: demo_isupper_def is_upper_char_def is_lower_char_def)

theorem extract_constants_name_targets_witness:
  "extract_constants demo_lib demo_assignments =
     Inr [JDict [(''name'', JStr ''MAX''), (''line_number'', JInt 1), (''value'', JStr ''1'')],
          JDict [(''name'', JStr ''MAX''), (''line_number'', JInt 2), (''value'', JStr ''2'')],
          JDict [(''name'', JStr ''MIN''), (''line_number'', JInt 2), (''value'', JStr ''2'')]]"
  unfolding extract_constants_name_targets [of demo_lib demo_assignments]
  by (simp add: demo_assignments_def constant_info_def demo_lib_def demo_isupper_examples
        small_ints_under_limit)

text \<open>
  The claim as it is written fails at \<^verbatim>\<open>MAX, MIN = 1, 2\<close>: the statement has one
  target, a tuple, and the loop over the targets only takes plain names.
\<close>

theorem tuple_targets_yield_no_constant:
  "extract_constants demo_lib
     [Assign [TupleExpr [Name ''MAX'', Name ''MIN'']]
        (TupleExpr [Constant (CInt 1), Constant (CInt 2)]) 1] = Inr []"
  by simp

section \<open>Properties of the record of one file\<close>

lemma doc_data_read_failure:
  "rd file_path = Inl e \<Longrightarrow> doc_data L rd now file_path = Inl e"
  by (simp add: doc_data_def)

lemma doc_data_parse_failure:
  "rd file_path = Inr src \<Longrightarrow> ast_parse L src file_path = Inl e \<Longrightarrow>
   doc_data L rd now file_path = Inl e"
  by (simp add: doc_data_def)

lemma doc_data_extraction_failure:
  assumes "rd file_path = Inr src" "ast_parse L src file_path = Inr tree"
    and "extract_classes L tree = Inl e \<or>
         (\<exists>cs. extract_classes L tree = Inr cs \<and>
            (extract_functions L tree = Inl e \<or>
             (\<exists>fs. extract_functions L tree = Inr fs \<and> extract_constants L tree = Inl e)))"
  shows "doc_data L rd now file_path = Inl e"
  using assms by (auto simp: doc_data_def)

lemma doc_data_extracted:
  assumes "rd file_path = Inr src" "ast_parse L src file_path = Inr tree"
    and "extract_classes L tree = Inr classes" "extract_functions L tree = Inr functions"
    and "extract_constants L tree = Inr constants"
  shows "doc_data L rd now file_path =
             Inr (JDict [(''path'', JStr file_path),
                         (''module_docstring'', json_opt (get_docstring L tree)),
                         (''imports'', JList (extract_imports tree)),
                         (''classes'', JList classes),
                         (''functions'', JList functions),
                         (''constants'', JList constants),
                         (''generated_at'', JStr now)])"
  using assms by (simp add: doc_data_def)

lemma doc_data_cases:
  "(\<exists>e. \<forall>now. doc_data L rd now file_path = Inl e) \<or>
   (\<exists>doc imports classes functions constants. \<forall>now.
      doc_data L rd now file_path =
        Inr (JDict [(''path'', JStr file_path), (''module_docstring'', doc),
                    (''imports'', imports), (''classes'', classes),
                    (''functions'', functions), (''constants'', constants),
                    (''generated_at'', JStr now)]))"
proof (cases "rd file_path")
  case (Inl e)
  then show ?thesis by (simp add: doc_data_def)
next
  case src: (Inr src)
  show ?thesis
  proof (cases "ast_parse L src file_path")
    case (Inl e)
    with src show ?thesis by (simp add: doc_data_def)
  next
    case tree: (Inr tree)
    show ?thesis
    proof (cases "extract_classes L tree")
      case (Inl e)
      with src tree show ?thesis by (simp add: doc_data_def)
    next
      case cs: (Inr cs)
      show ?thesis
      proof (cases "extract_functions L tree")
        case (Inl e)
        with src tree cs show ?thesis by (simp add: doc_data_def)
      next
        case fs: (Inr fs)
        show ?thesis
        proof (cases "extract_constants L tree")
          case (Inl e)
          with src tree cs fs show ?thesis by (simp add: doc_data_def)
        next
          case (Inr ks)
          with src tree cs fs show ?thesis by (simp add: doc_data_def)
        qed
      qed
    qed
  qed
qed

text \<open>
  Claim C1, as amended. \<^verbatim>\<open>extract_from_file\<close> always returns a dictionary. When the
  file cannot be read, when it is read and cannot be parsed, and when it is parsed and
  building the classes, the functions or the constants raises, the dictionary has
  exactly the keys \<^verbatim>\<open>path\<close>, \<^verbatim>\<open>error\<close> (the text of the first exception) and
  \<^verbatim>\<open>generated_at\<close>. When the file is read and parsed and the three lists are built,
  the dictionary has the path, the five structural fields and \<^verbatim>\<open>generated_at\<close>, and no
  \<^verbatim>\<open>error\<close>. In every case the keys are one of these two lists and not the other.
\<close>

theorem extract_from_file_record_shape:
  "(\<forall>e. rd file_path = Inl e \<longrightarrow>
      fst (extract_from_file L rd now file_path) =
        JDict [(''path'', JStr file_path), (''error'', JStr (str_exn e)),
               (''generated_at'', JStr now)])
   \<and> (\<forall>src e. rd file_path = Inr src \<and> ast_parse L src file_path = Inl e \<longrightarrow>
      fst (extract_from_file L rd now file_path) =
        JDict [(''path'', JStr file_path), (''error'', JStr (str_exn e)),
               (''generated_at'', JStr now)])
   \<and> (\<forall>src tree e. rd file_path = Inr src \<and> ast_parse L src file_path = Inr tree \<and>
        (extract_classes L tree = Inl e \<or>
         (\<exists>cs. extract_classes L tree = Inr cs \<and>
            (extract_functions L tree = Inl e \<or>
             (\<exists>fs. extract_functions L tree = Inr fs \<and> extract_constants L tree = Inl e))))
        \<longrightarrow>
      fst (extract_from_file L rd now file_path) =
        JDict [(''path'', JStr file_path), (''error'', JStr (str_exn e)),
               (''generated_at'', JStr now)])
   \<and> (\<forall>src tree classes functions constants.
        rd file_path = Inr src \<and> ast_parse L src file_path = Inr tree \<and>
        extract_classes L tree = Inr classes \<and> extract_functions L tree = Inr functions \<and>
        extract_constants L tree = Inr constants \<longrightarrow>
      fst (extract_from_file L rd now file_path) =
        JDict [(''path'', JStr file_path),
               (''module_docstring'', json_opt (get_docstring L tree)),
               (''imports'', JList (extract_imports tree)),
               (''classes'', JList classes),
               (''functions'', JList functions),
               (''constants'', JList constants),
               (''generated_at'', JStr now)])
   \<and> (json_keys (fst (extract_from_file L rd now file_path)) =
         [''path'', ''error'', ''generated_at''])
      \<noteq> (json_keys (fst (extract_from_file L rd now file_path)) =
         [''path'', ''module_docstring'', ''imports'', ''classes'', ''functions'',
          ''constants'', ''generated_at''])"
proof -
  have a: "fst (extract_from_file L rd now file_path) =
        JDict [(''path'', JStr file_path), (''error'', JStr (str_exn e)),
               (''generated_at'', JStr now)]"
    if "doc_data L rd now file_path = Inl e" for e
    using that by (simp add: extract_from_file_def)
  have b: "fst (extract_from_file L rd now file_path) = d"
    if "doc_data L rd now file_path = Inr d" for d
    using that by (simp add: extract_from_file_def)
  have keys: "(json_keys (fst (extract_from_file L rd now file_path)) =
         [''path'', ''error'', ''generated_at''])
      \<noteq> (json_keys (fst (extract_from_file L rd now file_path)) =
         [''path'', ''module_docstring'', ''imports'', ''classes'', ''functions'',
          ''constants'', ''generated_at''])"
    using doc_data_cases [of L rd file_path]
    by (auto simp: extract_from_file_def)
  show ?thesis
    using a [OF doc_data_read_failure] a [OF doc_data_parse_failure]
      a [OF doc_data_extraction_failure] b [OF doc_data_extracted] keys
    by (intro conjI allI impI) blast+
qed

theorem extract_from_file_record_shape_witness:
  "json_keys (fst (extract_from_file demo_lib demo_open ''t0'' ''a.py'')) =
     [''path'', ''module_docstring'', ''imports'', ''classes'', ''functions'',
      ''constants'', ''generated_at'']
   \<and> fst (extract_from_file demo_lib demo_open ''t0'' ''b.py'') =
       JDict [(''path'', JStr ''b.py''), (''error'', JStr ''invalid syntax''),
              (''generated_at'', JStr ''t0'')]
   \<and> fst (extract_from_file demo_lib demo_open ''t0'' ''c.py'') =
       JDict [(''path'', JStr ''c.py''), (''error'', JStr ''No such file or directory''),
              (''generated_at'', JStr ''t0'')]"
proof -
  obtain classes where cs: "extract_classes demo_lib demo_tree = Inr classes"
    using demo_tree_classes by (elim exE conjE)
  obtain funs where fs: "extract_functions demo_lib demo_tree = Inr funs"
    using demo_tree_functions by (elim exE conjE)
  have ks: "extract_constants demo_lib demo_tree =
      Inr [JDict [(''name'', JStr ''MAX''), (''line_number'', JInt 3), (''value'', JStr ''1'')]]"
    by (simp add: demo_tree_def constant_info_def demo_lib_def demo_isupper_examples
          small_ints_under_limit)
  have ra: "demo_open ''a.py'' = Inr ''good'' \<and> ast_parse demo_lib ''good'' ''a.py'' = Inr demo_tree"
    by (simp add: demo_open_def demo_lib_def demo_parse_def)
  have rb: "demo_open ''b.py'' = Inr ''def ('' \<and>
            ast_parse demo_lib ''def ('' ''b.py'' = Inl (SyntaxError ''invalid syntax'')"
    by (simp add: demo_open_def demo_lib_def demo_parse_def)
  have rc: "demo_open ''c.py'' = Inl (OSError ''No such file or directory'')"
    by (simp add: demo_open_def)
  from extract_from_file_record_shape [of demo_open "''a.py''" demo_lib "''t0''"] ra cs fs ks
  have "fst (extract_from_file demo_lib demo_open ''t0'' ''a.py'') =
        JDict [(''path'', JStr ''a.py''),
               (''module_docstring'', json_opt (get_docstring demo_lib demo_tree)),
               (''imports'', JList (extract_imports demo_tree)),
               (''classes'', JList classes),
               (''functions'', JList funs),
               (''constants'', JList [JDict [(''name'', JStr ''MAX''), (''line_number'', JInt 3),
                                              (''value'', JStr ''1'')]]),
               (''generated_at'', JStr ''t0'')]"
    by blast
  then have a: "json_keys (fst (extract_from_file demo_lib demo_open ''t0'' ''a.py'')) =
     [''path'', ''module_docstring'', ''imports'', ''classes'', ''functions'',
      ''constants'', ''generated_at'']"
    by simp
  from extract_from_file_record_shape [of demo_open "''b.py''" demo_lib "''t0''"] rb
  have b: "fst (extract_from_file demo_lib demo_open ''t0'' ''b.py'') =
       JDict [(''path'', JStr ''b.py''), (''error'', JStr ''invalid syntax''),
              (''generated_at'', JStr ''t0'')]"
    by auto
  from extract_from_file_record_shape [of demo_open "''c.py''" demo_lib "''t0''"] rc
  have c: "fst (extract_from_file demo_lib demo_open ''t0'' ''c.py'') =
       JDict [(''path'', JStr ''c.py''), (''error'', JStr ''No such file or directory''),
              (''generated_at'', JStr ''t0'')]"
    by auto
  show ?thesis using a b c by (intro conjI)
qed

text \<open>
  The claim as it is written fails at a file whose text is \<^verbatim>\<open>X = 0xff...f\<close> with 3600
  digits: the file is read and parsed, representing the value raises, and the record
  is the error record.
\<close>

theorem parsed_file_with_huge_constant_yields_error_record:
  "demo_open ''big.py'' = Inr ''huge''
   \<and> ast_parse demo_lib ''huge'' ''big.py'' = Inr demo_huge_tree
   \<and> fst (extract_from_file demo_lib demo_open ''t0'' ''big.py'') =
       JDict [(''path'', JStr ''big.py''),
              (''error'', JStr ''Exceeds the limit (4300 digits) for integer string conversion''),
              (''generated_at'', JStr ''t0'')]"
proof -
  have r: "demo_open ''big.py'' = Inr ''huge''" by (simp add: demo_open_def)
  have p: "ast_parse demo_lib ''huge'' ''big.py'' = Inr demo_huge_tree"
    by (simp add: demo_lib_def demo_parse_def)
  have cs: "extract_classes demo_lib demo_huge_tree = Inr []"
    by (simp add: extract_classes_def demo_huge_tree_def)
  have fs: "extract_functions demo_lib demo_huge_tree = Inr []"
    by (simp add: demo_huge_tree_def)
  have ks: "extract_constants demo_lib demo_huge_tree =
      Inl (ValueError ''Exceeds the limit (4300 digits) for integer string conversion'')"
    by (simp add: demo_huge_tree_def demo_lib_def demo_isupper_def is_upper_char_def
          is_lower_char_def demo_repr_huge del: demo_repr.simps)
  have "doc_data demo_lib demo_open ''t0'' ''big.py'' =
      Inl (ValueError ''Exceeds the limit (4300 digits) for integer string conversion'')"
    using r p cs fs ks by (simp add: doc_data_def)
  then have "fst (extract_from_file demo_lib demo_open ''t0'' ''big.py'') =
       JDict [(''path'', JStr ''big.py''),
              (''error'', JStr ''Exceeds the limit (4300 digits) for integer string conversion''),
              (''generated_at'', JStr ''t0'')]"
    by (simp add: extract_from_file_def)
  with r p show ?thesis by (intro conjI)
qed

section \<open>Properties of the ignore file and of the start of a generation\<close>



text \<open>
  Claim C6. When there is no repository (or opening it raises), and when a commit is
  named (a non-empty text) and looking it up raises, \<^verbatim>\<open>generate_documentation\<close>
  returns \<^verbatim>\<open>False\<close>, echoes
  the error as its only line, writes no file, creates no directory and extracts no
  file (the clock is never read). The line is the "not in a repository" message, the
  "commit not found" message when the lookup raises \<^verbatim>\<open>BadName\<close>, and the general
  error message with the text of the exception otherwise.
\<close>

theorem missing_commit_aborts_before_files:
  "(\<forall>m. git_Repo w = Inl (InvalidGitRepositoryError m) \<longrightarrow>
      generate_documentation L w commit_hash =
        (False, no_outputs\<lparr>echoed := [''Error: Not in a Git repository.'']\<rparr>))
   \<and> (\<forall>e. git_Repo w = Inl e \<longrightarrow>
      fst (generate_documentation L w commit_hash) = False \<and>
      written (snd (generate_documentation L w commit_hash)) = [] \<and>
      dirs_made (snd (generate_documentation L w commit_hash)) = [] \<and>
      ticks (snd (generate_documentation L w commit_hash)) = 0 \<and>
      length (echoed (snd (generate_documentation L w commit_hash))) = 1)
   \<and> (\<forall>r h m. git_Repo w = Inr r \<and> h \<noteq> [] \<and> commit_of r h = Inl (BadName m) \<longrightarrow>
      generate_documentation L w (Some h) =
        (False, no_outputs\<lparr>echoed := [''Error: Commit '' @ h @ '' not found.'']\<rparr>))
   \<and> (\<forall>r h e. git_Repo w = Inr r \<and> h \<noteq> [] \<and> commit_of r h = Inl e \<longrightarrow>
      fst (generate_documentation L w (Some h)) = False \<and>
      written (snd (generate_documentation L w (Some h))) = [] \<and>
      dirs_made (snd (generate_documentation L w (Some h))) = [] \<and>
      ticks (snd (generate_documentation L w (Some h))) = 0 \<and>
      length (echoed (snd (generate_documentation L w (Some h)))) = 1)"
proof -
  have none: "generate_documentation L w commit_hash =
        (False, no_outputs\<lparr>echoed := [''Error: Not in a Git repository.'']\<rparr>)"
    if "git_Repo w = Inl (InvalidGitRepositoryError m)" for m
    using that
    by (simp add: generate_documentation_def generate_steps_def get_git_repo_def echo_def
          no_outputs_def)
  have norepo: "fst (generate_documentation L w commit_hash) = False \<and>
      written (snd (generate_documentation L w commit_hash)) = [] \<and>
      dirs_made (snd (generate_documentation L w commit_hash)) = [] \<and>
      ticks (snd (generate_documentation L w commit_hash)) = 0 \<and>
      length (echoed (snd (generate_documentation L w commit_hash))) = 1"
    if "git_Repo w = Inl e" for e
    using that
    by (cases e)
       (simp_all add: generate_documentation_def generate_steps_def get_git_repo_def echo_def
          no_outputs_def)
  have bad: "generate_documentation L w (Some h) =
        (False, no_outputs\<lparr>echoed := [''Error: Commit '' @ h @ '' not found.'']\<rparr>)"
    if "git_Repo w = Inr r \<and> h \<noteq> [] \<and> commit_of r h = Inl (BadName m)" for r h m
    using that
    by (cases h)
       (simp_all add: generate_documentation_def generate_steps_def get_git_repo_def
          get_commit_info_def then_do_def echo_def no_outputs_def)
  have any: "fst (generate_documentation L w (Some h)) = False \<and>
      written (snd (generate_documentation L w (Some h))) = [] \<and>
      dirs_made (snd (generate_documentation L w (Some h))) = [] \<and>
      ticks (snd (generate_documentation L w (Some h))) = 0 \<and>
      length (echoed (snd (generate_documentation L w (Some h)))) = 1"
    if a: "git_Repo w = Inr r \<and> h \<noteq> [] \<and> commit_of r h = Inl e" for r h e
  proof -
    from a obtain c cs where h: "h = c # cs" by (cases h) auto
    have "generate_documentation L w (Some h) =
          (False, no_outputs\<lparr>echoed := [''Error: Commit '' @ h @ '' not found.'']\<rparr>)
        \<or> generate_documentation L w (Some h) =
          (False, no_outputs\<lparr>echoed := [''Error generating documentation: '' @ str_exn e]\<rparr>)"
      using a unfolding h
      by (cases e)
         (simp_all add: generate_documentation_def generate_steps_def get_git_repo_def
            get_commit_info_def then_do_def echo_def no_outputs_def)
    then show ?thesis by (auto simp: no_outputs_def)
  qed
  show ?thesis using none norepo bad any by blast
qed

theorem missing_commit_aborts_before_files_witness:
  "generate_documentation demo_lib demo_world (Some ''nosuch'') =
     (False, no_outputs\<lparr>echoed := [''Error: Commit nosuch not found.'']\<rparr>)
   \<and> generate_documentation demo_lib (demo_world\<lparr>git_Repo := Inl (InvalidGitRepositoryError ''.'')\<rparr>)
       None =
     (False, no_outputs\<lparr>echoed := [''Error: Not in a Git repository.'']\<rparr>)
   \<and> written (snd (generate_documentation demo_lib demo_world (Some ''deadbeef''))) = []"
proof -
  have r: "git_Repo demo_world = Inr demo_repo \<and> ''nosuch'' \<noteq> [] \<and>
           commit_of demo_repo ''nosuch'' = Inl (BadName ''nosuch'')"
    by (simp add: demo_world_def demo_repo_def)
  have r2: "git_Repo demo_world = Inr demo_repo \<and> ''deadbeef'' \<noteq> [] \<and>
           commit_of demo_repo ''deadbeef'' = Inl (ValueError ''bad object'')"
    by (simp add: demo_world_def demo_repo_def)
  from missing_commit_aborts_before_files [of demo_world demo_lib None] r
  have a: "generate_documentation demo_lib demo_world (Some ''nosuch'') =
     (False, no_outputs\<lparr>echoed := [''Error: Commit nosuch not found.'']\<rparr>)"
    by fastforce
  from missing_commit_aborts_before_files
    [of "demo_world\<lparr>git_Repo := Inl (InvalidGitRepositoryError ''.'')\<rparr>" demo_lib None]
  have b: "generate_documentation demo_lib
       (demo_world\<lparr>git_Repo := Inl (InvalidGitRepositoryError ''.'')\<rparr>) None =
     (False, no_outputs\<lparr>echoed := [''Error: Not in a Git repository.'']\<rparr>)"
    by simp
  from missing_commit_aborts_before_files [of demo_world demo_lib None] r2
  have c: "written (snd (generate_documentation demo_lib demo_world (Some ''deadbeef''))) = []"
    by blast
  show ?thesis using a b c by (intro conjI)
qed

section \<open>Two runs that differ in the clock\<close>

lemma alike_refl: "alike out out"
  by (simp add: alike_def)

lemma alike_echo: "alike o1 o2 \<Longrightarrow> alike (echo line o1) (echo line o2)"
  by (simp add: alike_def echo_def)

lemma then_do_alike:
  assumes "alike_result m1 m2"
    and "\<And>x o1 o2. alike o1 o2 \<Longrightarrow> alike_result (f1 x o1) (f2 x o2)"
  shows "alike_result (then_do m1 f1) (then_do m2 f2)"
proof (cases m1)
  case m1: (Pair r1 o1)
  obtain r2 o2 where m2: "m2 = (r2, o2)" by (cases m2)
  from assms(1) m1 m2 have r: "r2 = r1" and a: "alike o1 o2"
    by (simp_all add: alike_result_def)
  show ?thesis
  proof (cases r1)
    case (Inl e)
    then show ?thesis using m1 m2 r a by (simp add: then_do_def alike_result_def)
  next
    case (Inr x)
    then show ?thesis using m1 m2 r assms(2) [OF a, of x] by (simp add: then_do_def)
  qed
qed

lemma ensure_directory_alike:
  "alike o1 o2 \<Longrightarrow>
   alike_result (ensure_directory w path o1) (ensure_directory (w\<lparr>clock := c\<rparr>) path o2)"
  by (simp add: ensure_directory_def alike_result_def alike_def split: option.splits)

lemma write_json_alike:
  "alike o1 o2 \<Longrightarrow> structural d1 = structural d2 \<Longrightarrow>
   alike_result (write_json w path d1 o1) (write_json (w\<lparr>clock := c\<rparr>) path d2 o2)"
  by (simp add: write_json_def alike_result_def alike_def split: option.splits)

lemma extract_from_file_clock:
  "structural (fst (extract_from_file L rd now1 p)) =
     structural (fst (extract_from_file L rd now2 p)) \<and>
   snd (extract_from_file L rd now1 p) = snd (extract_from_file L rd now2 p)"
  using doc_data_cases [of L rd p]
  by (auto simp: extract_from_file_def)

lemma process_files_alike:
  "alike o1 o2 \<Longrightarrow>
   alike_result (process_files L w files o1) (process_files L (w\<lparr>clock := c\<rparr>) files o2)"
proof (induction files arbitrary: o1 o2)
  case Nil
  then show ?case by (simp add: alike_result_def)
next
  case (Cons py_file rest)
  let ?r1 = "extract_from_file L (open_read w)
               (clock w (ticks (echo (''  Processing '' @ py_file @ ''...'') o1))) py_file"
  let ?r2 = "extract_from_file L (open_read w)
               (c (ticks (echo (''  Processing '' @ py_file @ ''...'') o2))) py_file"
  have s: "structural (fst ?r1) = structural (fst ?r2)" and e: "snd ?r1 = snd ?r2"
    using extract_from_file_clock by blast+
  have a2: "alike
     (echo (''  Processing '' @ py_file @ ''...'') o1
        \<lparr>echoed := echoed (echo (''  Processing '' @ py_file @ ''...'') o1) @ snd ?r1,
         ticks := Suc (ticks (echo (''  Processing '' @ py_file @ ''...'') o1))\<rparr>)
     (echo (''  Processing '' @ py_file @ ''...'') o2
        \<lparr>echoed := echoed (echo (''  Processing '' @ py_file @ ''...'') o2) @ snd ?r2,
         ticks := Suc (ticks (echo (''  Processing '' @ py_file @ ''...'') o2))\<rparr>)"
    using Cons.prems e by (simp add: alike_def echo_def)
  have ow: "open_read (w\<lparr>clock := c\<rparr>) = open_read w" and cw: "clock (w\<lparr>clock := c\<rparr>) = c"
    by simp_all
  show ?case
    unfolding process_files.simps Let_def ow cw
    apply (rule then_do_alike)
     apply (rule ensure_directory_alike [OF a2])
    apply (rule then_do_alike)
     apply (erule write_json_alike [OF _ s])
    apply (rule then_do_alike)
     apply (erule Cons.IH)
    apply (simp add: alike_result_def)
    done
qed

lemma snapshot_alike:
  "alike o1 o2 \<Longrightarrow> alike_result (snapshot L w info o1) (snapshot L (w\<lparr>clock := c\<rparr>) info o2)"
proof -
  assume a: "alike o1 o2"
  let ?ld = "load_docignore L (path_exists w) (open_read w) ''.docignore''"
  have a1: "alike (o1\<lparr>echoed := echoed o1 @ snd ?ld\<rparr>) (o2\<lparr>echoed := echoed o2 @ snd ?ld\<rparr>)"
    using a by (simp add: alike_def)
  show ?thesis
  proof (cases "get_python_files L (top_dir w) (fst ?ld) = []")
    case True
    then show ?thesis using alike_echo [OF a1]
      by (simp add: snapshot_def Let_def alike_result_def)
  next
    case False
    have sel: "open_read (w\<lparr>clock := c\<rparr>) = open_read w" "clock (w\<lparr>clock := c\<rparr>) = c"
      "path_exists (w\<lparr>clock := c\<rparr>) = path_exists w" "top_dir (w\<lparr>clock := c\<rparr>) = top_dir w"
      by simp_all
    show ?thesis
      unfolding snapshot_def Let_def sel
      apply (simp only: False if_False)
      apply (rule then_do_alike)
       apply (rule ensure_directory_alike [OF a1])
      apply (rule then_do_alike)
       apply (erule process_files_alike)
      apply (rule then_do_alike)
       apply (erule write_json_alike)
       apply (rule refl)
      apply (rule then_do_alike)
       apply (simp add: alike_result_def)
      apply (rule then_do_alike)
       apply (rule write_json_alike)
        apply (simp add: alike_def)
       apply (simp add: docshadow_data_def)
      apply (simp add: alike_result_def alike_def echo_def)
      done
  qed
qed

lemma generate_steps_alike:
  "alike_result (generate_steps L w commit_hash no_outputs)
     (generate_steps L (w\<lparr>clock := c\<rparr>) commit_hash no_outputs)"
proof (cases "get_git_repo w")
  case (Inl e)
  then show ?thesis
    by (simp add: generate_steps_def get_git_repo_def alike_result_def alike_refl)
next
  case (Inr found)
  show ?thesis
  proof (cases found)
    case None
    with Inr show ?thesis
      by (simp add: generate_steps_def get_git_repo_def alike_result_def alike_refl)
  next
    case (Some r)
    have g: "get_git_repo (w\<lparr>clock := c\<rparr>) = Inr (Some r)"
      using Inr Some by (simp add: get_git_repo_def)
    show ?thesis
      unfolding generate_steps_def g
      apply (simp only: Inr Some sum.case option.case)
      apply (rule then_do_alike)
       apply (simp add: alike_result_def alike_refl)
      subgoal for found o1 o2
        by (cases found) (simp add: alike_result_def, simp add: snapshot_alike alike_echo)
      done
  qed
qed

text \<open>
  Claim C8. The record of a file is the same at two readings of the clock once its
  \<^verbatim>\<open>generated_at\<close> entry is left out, and so are the warnings. For a whole run: with
  the same repository, files and library and another clock, \<^verbatim>\<open>generate_documentation\<close>
  returns the same value and writes, in the same order and under the same paths, the same
  documents (per-file records, index and structure map) up to their \<^verbatim>\<open>generated_at\<close>
  entries; the directories created and the lines echoed are the same too.
\<close>

theorem snapshot_repeatable_up_to_generated_at:
  "structural (fst (extract_from_file L rd now1 p)) =
     structural (fst (extract_from_file L rd now2 p))
   \<and> snd (extract_from_file L rd now1 p) = snd (extract_from_file L rd now2 p)
   \<and> fst (generate_documentation L (w\<lparr>clock := c\<rparr>) commit_hash) =
       fst (generate_documentation L w commit_hash)
   \<and> map (\<lambda>pj. (fst pj, structural (snd pj)))
         (written (snd (generate_documentation L (w\<lparr>clock := c\<rparr>) commit_hash))) =
       map (\<lambda>pj. (fst pj, structural (snd pj)))
         (written (snd (generate_documentation L w commit_hash)))
   \<and> dirs_made (snd (generate_documentation L (w\<lparr>clock := c\<rparr>) commit_hash)) =
       dirs_made (snd (generate_documentation L w commit_hash))
   \<and> echoed (snd (generate_documentation L (w\<lparr>clock := c\<rparr>) commit_hash)) =
       echoed (snd (generate_documentation L w commit_hash))"
proof -
  obtain r1 o1 where g1: "generate_steps L w commit_hash no_outputs = (r1, o1)"
    by (cases "generate_steps L w commit_hash no_outputs")
  obtain r2 o2 where g2: "generate_steps L (w\<lparr>clock := c\<rparr>) commit_hash no_outputs = (r2, o2)"
    by (cases "generate_steps L (w\<lparr>clock := c\<rparr>) commit_hash no_outputs")
  from generate_steps_alike [of L w commit_hash c] g1 g2
  have r: "r2 = r1" and a: "alike o1 o2"
    by (simp_all add: alike_result_def)
  have run: "fst (generate_documentation L (w\<lparr>clock := c\<rparr>) commit_hash) =
       fst (generate_documentation L w commit_hash) \<and>
     alike (snd (generate_documentation L w commit_hash))
       (snd (generate_documentation L (w\<lparr>clock := c\<rparr>) commit_hash))"
    using a alike_echo [OF a]
    by (cases r1) (simp_all add: generate_documentation_def g1 g2 r)
  from run extract_from_file_clock [of L rd now1 p now2] show ?thesis
    by (simp add: alike_def)
qed

theorem snapshot_repeatable_up_to_generated_at_witness:
  "structural (fst (extract_from_file demo_lib demo_open ''t1'' ''a.py'')) =
     structural (fst (extract_from_file demo_lib demo_open ''t2'' ''a.py''))
   \<and> fst (generate_documentation demo_lib (demo_world\<lparr>clock := (\<lambda>n. ''later'')\<rparr>) None) =
       fst (generate_documentation demo_lib demo_world None)"
  using snapshot_repeatable_up_to_generated_at
    [where L = demo_lib and rd = demo_open and ?now1.0 = "''t1''" and p = "''a.py''"
       and ?now2.0 = "''t2''" and w = demo_world and c = "\<lambda>n. ''later''"
       and commit_hash = None]
  by blast

end
